theory Spec2Isabelle
  imports Main "HOL-Library.Sublist"
begin

section \<open>Data model\<close>

text \<open>
  The scheduler is the class \<open>TexasScheduler\<close>. Its current source (the Telegram
  notifier, demo mode, two-sided day window) is the TypeScript class stored after the
  container recipe in \<open>src/Dockerfile\<close>; \<open>src/src/Client/index.ts\<close> holds a second
  version of the same class. Definitions without a suffix embed the first; definitions
  with the suffix \<open>_Client\<close> embed the functions of \<open>Client/index.ts\<close> that differ.
\<close>

text \<open>The fields of \<open>config\<close> that the class reads and that decide control flow or payloads.
  A JavaScript number that holds an integer is an \<open>int\<close> here; the time values of \<open>Date\<close> are
  integers of at most \<open>8.64 * 10^15\<close> in absolute value, a range in which the arithmetic of
  the code is exact.\<close>

record config =
  demoOnly :: bool
  cancelIfExist :: bool
  webhook_enable :: bool
  webhook_chatId :: string
  daysAround :: "int \<times> int"
  miles :: int
  firstName :: string
  lastName :: string

text \<open>\<open>AvaliableTimeSlots\<close>, \<open>LocationAvailabilityDates\<close> entries and \<open>AvaliableLocationResponse\<close>.
  \<open>AvailabilityDate\<close> is the value of \<open>new Date(date.AvailabilityDate).valueOf()\<close>, in
  milliseconds: \<open>Some t\<close> for a date that parses, \<open>None\<close> for an invalid date, whose value
  is \<open>NaN\<close>.\<close>

record slot =
  SlotId :: int
  StartDateTime :: string
  FormattedStartDateTime :: string
  Duration :: int

record avail_date =
  AvailabilityDate :: "int option"
  AvailableTimeSlots :: "slot list"

record location =
  loc_Id :: int
  loc_Name :: string
  loc_Distance :: int

text \<open>The private fields of the class. \<open>queue_isPaused\<close> is \<open>this.queue.isPaused\<close>.\<close>

record scheduler =
  avaliableLocation :: "location list option"
  webhookStatusMessageId :: int
  isBooked :: bool
  isHolded :: bool
  queue_isPaused :: bool
  existingBookingConfirmationNumber :: string

definition init_scheduler :: scheduler where
  "init_scheduler =
     \<lparr>avaliableLocation = None, webhookStatusMessageId = - 1, isBooked = False,
      isHolded = False, queue_isPaused = False, existingBookingConfirmationNumber = []\<rparr>"

subsection \<open>The network\<close>

text \<open>\<open>webhookPayload\<close> of \<open>Interfaces/webhook.ts\<close>; the optional fields are options.\<close>

record webhookPayload =
  text_field :: string
  chat_id :: string
  message_id :: "int option"
  disable_notification :: "bool option"

text \<open>The request bodies, with the fields that are not copied from the personal
  information of the configuration.\<close>

datatype api_body =
    ExistBookingPayload
  | CancelBookingPayload string
  | EligibilityPayload
  | AvaliableLocationPayload
  | AvaliableLocationDatesPayload int
  | HoldSlotPayload int
  | BookSlotPayload string int string int

datatype request =
    Api string api_body
  | Telegram string webhookPayload

text \<open>What a response body parses to. \<open>NotJson\<close> is a body on which \<open>body.json()\<close>
  throws; \<open>OtherJson\<close> is a JSON object with none of the fields the reader looks for.\<close>

datatype body =
    NotJson
  | OtherJson
  | ExistBookingJson "string list"
  | LocationsJson "location list"
  | DatesJson "avail_date list"
  | HoldJson bool
  | EligibilityJson "string list"
  | BookJson string
  | WebhookOk int
  | WebhookError string

datatype reply = NoResponse | Response nat body

text \<open>The world outside the process: the replies the servers will give, in the order
  of the requests, and the requests issued so far (oldest first). A request that finds
  no reply left fails as a network failure does.\<close>

record world =
  replies :: "reply list"
  sent :: "request list"

definition transport :: "request \<Rightarrow> world \<Rightarrow> reply \<times> world" where
  "transport rq w =
     (case replies w of
        [] \<Rightarrow> (NoResponse, w\<lparr>sent := sent w @ [rq]\<rparr>)
      | r # rs \<Rightarrow> (r, w\<lparr>replies := rs, sent := sent w @ [rq]\<rparr>))"

text \<open>How an asynchronous method ends: its promise resolves with a value, it rejects
  (a thrown error, or \<open>Promise.reject()\<close> with no reason), or the process exits.\<close>

datatype reason = TransportError | BodyError | TypeError | NoReason

datatype exit_reason =
    BookedOk | DemoRefusal | KeepExisting | WebhookSetupFailed | CancelFailed

text \<open>The argument of \<open>process.exit\<close> at each of its call sites.\<close>

fun exit_code :: "exit_reason \<Rightarrow> nat" where
  "exit_code BookedOk = 0"
| "exit_code DemoRefusal = 2"
| "exit_code KeepExisting = 0"
| "exit_code WebhookSetupFailed = 5"
| "exit_code CancelFailed = 0"

datatype 'a outcome = Resolved 'a | Rejected reason | Exited exit_reason

section \<open>The notifier\<close>

text \<open>\<open>sendWebhook\<close>. The result is \<open>Some message_id\<close> for \<open>resp.result\<close> and \<open>None\<close> for
  \<open>null\<close>. The method calls itself after a failed edit, with the stored identifier set
  to \<open>-2\<close>.\<close>

definition sendNewMessage :: "bool \<Rightarrow> scheduler \<Rightarrow> bool" where
  "sendNewMessage important s = (important \<or> webhookStatusMessageId s < 0)"

definition webhook_request :: "config \<Rightarrow> string \<Rightarrow> bool \<Rightarrow> scheduler \<Rightarrow> request" where
  "webhook_request cfg message important s =
     (let new = sendNewMessage important s in
      Telegram (if new then ''sendMessage'' else ''editMessageText'')
        \<lparr>text_field = message, chat_id = webhook_chatId cfg,
         message_id = (if \<not> new then Some (webhookStatusMessageId s) else None),
         disable_notification = (if new \<and> \<not> important then Some True else None)\<rparr>)"

function sendWebhook ::
  "config \<Rightarrow> string \<Rightarrow> bool \<Rightarrow> scheduler \<Rightarrow> world \<Rightarrow> int option outcome \<times> scheduler \<times> world"
where
  "sendWebhook cfg message important s w =
     (let new = sendNewMessage important s;
          (r, w1) = transport (webhook_request cfg message important s) w
      in case r of
           NoResponse \<Rightarrow> (Rejected TransportError, s, w1)
         | Response st NotJson \<Rightarrow> (Rejected BodyError, s, w1)
         | Response st (WebhookOk mid) \<Rightarrow>
             (if \<not> important \<and> new
              then (Resolved (Some mid), s\<lparr>webhookStatusMessageId := mid\<rparr>, w1)
              else (Resolved (Some mid), s, w1))
         | Response st _ \<Rightarrow>
             (if \<not> new
              then sendWebhook cfg message important (s\<lparr>webhookStatusMessageId := - 2\<rparr>) w1
              else (Resolved None, s, w1)))"
  by pat_completeness auto
termination
  by (relation "measure (\<lambda>(cfg, message, important, s, w).
        if sendNewMessage important s then 0 else 1)")
     (auto simp: sendNewMessage_def)

declare sendWebhook.simps [simp del]

section \<open>The reservation workflow\<close>

text \<open>\<open>requestApi\<close>: one request to the scheduling API.\<close>

definition requestApi :: "string \<Rightarrow> api_body \<Rightarrow> world \<Rightarrow> reply \<times> world" where
  "requestApi path b w = transport (Api path b) w"

text \<open>\<open>cancelBooking\<close>.\<close>

definition cancelBooking ::
  "config \<Rightarrow> string \<Rightarrow> scheduler \<Rightarrow> world \<Rightarrow> unit outcome \<times> scheduler \<times> world"
where
  "cancelBooking cfg ConfirmationNumber s w =
     (if demoOnly cfg then (Exited DemoRefusal, s, w)
      else
        let (r, w1) = requestApi ''/api/CancelBooking'' (CancelBookingPayload ConfirmationNumber) w
        in case r of
             NoResponse \<Rightarrow> (Rejected TransportError, s, w1)
           | Response st b \<Rightarrow>
               (if st = 200 then (Resolved (), s, w1) else (Exited CancelFailed, s, w1)))"

text \<open>\<open>getResponseId\<close>: \<open>response[0].ResponseId\<close>.\<close>

definition getResponseId :: "world \<Rightarrow> string outcome \<times> world" where
  "getResponseId w =
     (let (r, w1) = requestApi ''/api/Eligibility'' EligibilityPayload w
      in case r of
           NoResponse \<Rightarrow> (Rejected TransportError, w1)
         | Response st NotJson \<Rightarrow> (Rejected BodyError, w1)
         | Response st (EligibilityJson (rid # rest)) \<Rightarrow> (Resolved rid, w1)
         | Response st _ \<Rightarrow> (Rejected TypeError, w1))"

text \<open>The text of the notification sent after a booking: the lines joined by a newline.\<close>

fun join_lines :: "string list \<Rightarrow> string" where
  "join_lines [] = []"
| "join_lines [l] = l"
| "join_lines (l # ls) = l @ [CHR 0x0A] @ join_lines ls"

definition appointmentURL :: "string \<Rightarrow> string" where
  "appointmentURL conf = ''https://public.txdpsscheduler.com/?b='' @ conf"

definition booked_message :: "config \<Rightarrow> string \<Rightarrow> location \<Rightarrow> slot \<Rightarrow> string" where
  "booked_message cfg conf loc booking =
     join_lines
       [''Booking for '' @ firstName cfg @ '' '' @ lastName cfg @ '' has been booked.'',
        ''Confirmation Number: '' @ conf,
        ''Location: '' @ loc_Name loc @ '' DPS'',
        ''Time: '' @ FormattedStartDateTime booking,
        ''Appointment URL: '' @ appointmentURL conf,
        [],
        ''Scheduler will now Exit.'']"

text \<open>\<open>bookSlot\<close>.\<close>

definition bookSlot ::
  "config \<Rightarrow> slot \<Rightarrow> location \<Rightarrow> scheduler \<Rightarrow> world \<Rightarrow> unit outcome \<times> scheduler \<times> world"
where
  "bookSlot cfg booking loc s w =
     (if demoOnly cfg then (Exited DemoRefusal, s, w)
      else if isBooked s then (Resolved (), s, w)
      else
        case getResponseId w of
          (Rejected e, w1) \<Rightarrow> (Rejected e, s, w1)
        | (Exited x, w1) \<Rightarrow> (Exited x, s, w1)
        | (Resolved rid, w1) \<Rightarrow>
            (let (r, w2) = requestApi ''/api/NewBooking''
                   (BookSlotPayload (StartDateTime booking) (Duration booking) rid (loc_Id loc)) w1
             in case r of
                  NoResponse \<Rightarrow> (Rejected TransportError, s, w2)
                | Response st b \<Rightarrow>
                    (if st = 200 then
                       (case b of
                          NotJson \<Rightarrow> (Rejected BodyError, s, w2)
                        | BookJson conf \<Rightarrow>
                            (let s1 = s\<lparr>isBooked := True\<rparr> in
                             if webhook_enable cfg then
                               (case sendWebhook cfg (booked_message cfg conf loc booking) True s1 w2 of
                                  (Resolved m, s2, w3) \<Rightarrow> (Exited BookedOk, s2, w3)
                                | (Rejected e, s2, w3) \<Rightarrow> (Rejected e, s2, w3)
                                | (Exited x, s2, w3) \<Rightarrow> (Exited x, s2, w3))
                             else (Exited BookedOk, s1, w2))
                        | _ \<Rightarrow> (Rejected TypeError, s, w2))
                     else (Resolved (), s\<lparr>queue_isPaused := False\<rparr>, w2))))"

text \<open>\<open>holdSlot\<close>. \<open>cancel_existing\<close> is its statement
  \<open>if (this.existingBookingConfirmationNumber) await this.cancelBooking(...)\<close>.\<close>

definition cancel_existing ::
  "config \<Rightarrow> scheduler \<Rightarrow> world \<Rightarrow> unit outcome \<times> scheduler \<times> world"
where
  "cancel_existing cfg s w =
     (if existingBookingConfirmationNumber s \<noteq> []
      then cancelBooking cfg (existingBookingConfirmationNumber s) s w
      else (Resolved (), s, w))"

definition holdSlot ::
  "config \<Rightarrow> slot \<Rightarrow> location \<Rightarrow> scheduler \<Rightarrow> world \<Rightarrow> unit outcome \<times> scheduler \<times> world"
where
  "holdSlot cfg booking loc s w =
     (if demoOnly cfg then (Exited DemoRefusal, s, w)
      else if isHolded s then (Resolved (), s, w)
      else
        case cancel_existing cfg s w of
          (Rejected e, s1, w1) \<Rightarrow> (Rejected e, s1, w1)
        | (Exited x, s1, w1) \<Rightarrow> (Exited x, s1, w1)
        | (Resolved u, s1, w1) \<Rightarrow>
            (let (r, w2) = requestApi ''/api/HoldSlot'' (HoldSlotPayload (SlotId booking)) w1
             in case r of
                  NoResponse \<Rightarrow> (Rejected TransportError, s1, w2)
                | Response st NotJson \<Rightarrow> (Rejected BodyError, s1, w2)
                | Response st (HoldJson True) \<Rightarrow>
                    bookSlot cfg booking loc (s1\<lparr>isHolded := True\<rparr>) w2
                | Response st _ \<Rightarrow> (Resolved (), s1\<lparr>queue_isPaused := False\<rparr>, w2)))"

section \<open>The location prober\<close>

text \<open>\<open>ms\<close> of the package of that name on the string \<open>`${n}d`\<close>, for an integer
  \<open>n\<close>. Below \<open>10^21\<close> in absolute value the text of \<open>n\<close> is its decimal digits, and \<open>ms\<close>
  returns the number of milliseconds in \<open>n\<close> days. From \<open>10^21\<close> on the text of \<open>n\<close> has an
  exponent (\<open>1e+21\<close>), \<open>ms\<close> does not parse it and returns \<open>undefined\<close>, here \<open>None\<close>.\<close>

definition ms_d :: "int \<Rightarrow> int option" where
  "ms_d n = (if \<bar>n\<bar> < 10 ^ 21 then Some (n * 86400000) else None)"

text \<open>The subtraction of the clock from the value of a date, \<open>NaN\<close> for an invalid date,
  and the comparisons \<open><\<close> and \<open>>=\<close> of its result with a result of \<open>ms\<close>: both are false when
  the left side is \<open>NaN\<close> or the right side is \<open>undefined\<close>.\<close>

fun js_minus :: "int option \<Rightarrow> int \<Rightarrow> int option" where
  "js_minus (Some t) now = Some (t - now)"
| "js_minus None now = None"

fun js_lt :: "int option \<Rightarrow> int option \<Rightarrow> bool" where
  "js_lt (Some x) (Some y) = (x < y)"
| "js_lt x y = False"

fun js_ge :: "int option \<Rightarrow> int option \<Rightarrow> bool" where
  "js_ge (Some x) (Some y) = (x \<ge> y)"
| "js_ge x y = False"

text \<open>The callback of the \<open>filter\<close> in \<open>getLocationDates\<close>. It reads the clock itself,
  so \<open>now\<close> is the reading of \<open>new Date().valueOf()\<close> in this call of the callback.\<close>

definition in_window :: "config \<Rightarrow> int \<Rightarrow> avail_date \<Rightarrow> bool" where
  "in_window cfg now date =
     (let msAway = js_minus (AvailabilityDate date) now in
      js_lt msAway (ms_d (snd (daysAround cfg))) \<and>
      js_ge msAway (ms_d (fst (daysAround cfg))) \<and>
      length (AvailableTimeSlots date) > 0)"

text \<open>\<open>response.LocationAvailabilityDates.filter(...)\<close>: \<open>clock i\<close> is the reading of the
  clock when the callback runs on the element of index \<open>i\<close>.\<close>

fun avaliableDates :: "config \<Rightarrow> (nat \<Rightarrow> int) \<Rightarrow> nat \<Rightarrow> avail_date list \<Rightarrow> avail_date list" where
  "avaliableDates cfg clock i [] = []"
| "avaliableDates cfg clock i (d # ds) =
     (if in_window cfg (clock i) d
      then d # avaliableDates cfg clock (Suc i) ds
      else avaliableDates cfg clock (Suc i) ds)"

text \<open>\<open>getLocationDates\<close>. The value of the promise is the pair of the location and the
  response, here its \<open>LocationAvailabilityDates\<close>. \<open>holdSlot\<close> is called without
  \<open>await\<close>: its rejection does not reach the probe; here it runs to its end before the
  probe returns.\<close>

definition getLocationDates ::
  "config \<Rightarrow> (nat \<Rightarrow> int) \<Rightarrow> location \<Rightarrow> scheduler \<Rightarrow> world \<Rightarrow>
     (location \<times> avail_date list) outcome \<times> scheduler \<times> world"
where
  "getLocationDates cfg clock loc s w =
     (let (r, w1) = requestApi ''/api/AvailableLocationDates''
                      (AvaliableLocationDatesPayload (loc_Id loc)) w
      in case r of
           NoResponse \<Rightarrow> (Rejected TransportError, s, w1)
         | Response st NotJson \<Rightarrow> (Rejected BodyError, s, w1)
         | Response st (DatesJson ds) \<Rightarrow>
             (case avaliableDates cfg clock 0 ds of
                [] \<Rightarrow> (Resolved (loc, ds), s, w1)
              | d # rest \<Rightarrow>
                  (case AvailableTimeSlots d of
                     [] \<Rightarrow> (Rejected TypeError, s, w1)
                   | booking # others \<Rightarrow>
                       (let s1 = s\<lparr>queue_isPaused := True\<rparr> in
                        if \<not> demoOnly cfg then
                          (case holdSlot cfg booking loc s1 w1 of
                             (Exited x, s2, w2) \<Rightarrow> (Exited x, s2, w2)
                           | (h, s2, w2) \<Rightarrow> (Resolved (loc, ds), s2, w2))
                        else (Resolved (loc, ds), s1, w1))))
         | Response st _ \<Rightarrow> (Rejected TypeError, s, w1))"

section \<open>The orchestrator\<close>

text \<open>\<open>checkExistBooking\<close>: the response is the list of the bookings found, each with its
  \<open>ConfirmationNumber\<close>.\<close>

definition checkExistBooking :: "world \<Rightarrow> (bool \<times> string list) outcome \<times> world" where
  "checkExistBooking w =
     (let (r, w1) = requestApi ''/api/Booking'' ExistBookingPayload w
      in case r of
           NoResponse \<Rightarrow> (Rejected TransportError, w1)
         | Response st NotJson \<Rightarrow> (Rejected BodyError, w1)
         | Response st (ExistBookingJson response) \<Rightarrow>
             (if length response > 0 then (Resolved (True, response), w1)
              else (Resolved (False, response), w1))
         | Response st _ \<Rightarrow> (Resolved (False, []), w1))"

text \<open>\<open>requestAvaliableLocation\<close>.\<close>

definition requestAvaliableLocation ::
  "config \<Rightarrow> scheduler \<Rightarrow> world \<Rightarrow> unit outcome \<times> scheduler \<times> world"
where
  "requestAvaliableLocation cfg s w =
     (let (r, w1) = requestApi ''/api/AvailableLocation/'' AvaliableLocationPayload w
      in case r of
           NoResponse \<Rightarrow> (Rejected TransportError, s, w1)
         | Response st NotJson \<Rightarrow> (Rejected BodyError, s, w1)
         | Response st (LocationsJson ls) \<Rightarrow>
             (Resolved (),
              s\<lparr>avaliableLocation := Some (filter (\<lambda>l. loc_Distance l < miles cfg) ls)\<rparr>, w1)
         | Response st _ \<Rightarrow> (Rejected TypeError, s, w1))"

text \<open>\<open>run\<close>, from its start to the call of \<open>getLocationDatesAll\<close>, the polling loop.
  \<open>started\<close> is the text of \<open>new Date()\<close> in the first message. \<open>run_existing\<close> is the
  part of \<open>run\<close> after the first message; \<open>first\<close> is \<open>existBooking.response[0]\<close>.\<close>

definition run_existing ::
  "config \<Rightarrow> scheduler \<Rightarrow> world \<Rightarrow> unit outcome \<times> scheduler \<times> world"
where
  "run_existing cfg s w =
     (case checkExistBooking w of
        (Rejected e, w1) \<Rightarrow> (Rejected e, s, w1)
      | (Exited x, w1) \<Rightarrow> (Exited x, s, w1)
      | (Resolved (exist, response), w1) \<Rightarrow>
          (if exist then
             (case response of
                [] \<Rightarrow> (Rejected TypeError, s, w1)
              | first # others \<Rightarrow>
                  (if cancelIfExist cfg
                   then requestAvaliableLocation cfg
                          (s\<lparr>existingBookingConfirmationNumber := first\<rparr>) w1
                   else (Exited KeepExisting, s, w1)))
           else requestAvaliableLocation cfg s w1))"

text \<open>\<open>run_notify\<close> is the first statement of \<open>run\<close>: the first message, inside \<open>try\<close>, when
  notifications are enabled.\<close>

definition run_notify ::
  "config \<Rightarrow> string \<Rightarrow> scheduler \<Rightarrow> world \<Rightarrow> unit outcome \<times> scheduler \<times> world"
where
  "run_notify cfg started s w =
     (if webhook_enable cfg then
        (case sendWebhook cfg (''TX DPS Scheduler Starting at '' @ started) False s w of
           (Rejected e, s1, w1) \<Rightarrow> (Exited WebhookSetupFailed, s1, w1)
         | (Exited x, s1, w1) \<Rightarrow> (Exited x, s1, w1)
         | (Resolved m, s1, w1) \<Rightarrow> (Resolved (), s1, w1))
      else (Resolved (), s, w))"

definition run ::
  "config \<Rightarrow> string \<Rightarrow> scheduler \<Rightarrow> world \<Rightarrow> unit outcome \<times> scheduler \<times> world"
where
  "run cfg started s w =
     (case run_notify cfg started s w of
        (Resolved u, s1, w1) \<Rightarrow> run_existing cfg s1 w1
      | (Rejected e, s1, w1) \<Rightarrow> (Rejected e, s1, w1)
      | (Exited x, s1, w1) \<Rightarrow> (Exited x, s1, w1))"

section \<open>The version of the class in \<open>Client/index.ts\<close>\<close>

text \<open>This version has no demo mode, no staged cancellation and no stored message
  reference; its day window is the single number \<open>config.location.daysAround\<close>, here the
  parameter \<open>around\<close>. Its webhook request carries the message only.\<close>

datatype request_Client =
    Api_Client string api_body
  | Webhook_Client string

record world_Client =
  replies_Client :: "reply list"
  sent_Client :: "request_Client list"

definition transport_Client :: "request_Client \<Rightarrow> world_Client \<Rightarrow> reply \<times> world_Client" where
  "transport_Client rq w =
     (case replies_Client w of
        [] \<Rightarrow> (NoResponse, w\<lparr>sent_Client := sent_Client w @ [rq]\<rparr>)
      | r # rs \<Rightarrow> (r, w\<lparr>replies_Client := rs, sent_Client := sent_Client w @ [rq]\<rparr>))"

definition cancelBooking_Client ::
  "string \<Rightarrow> scheduler \<Rightarrow> world_Client \<Rightarrow> unit outcome \<times> scheduler \<times> world_Client"
where
  "cancelBooking_Client ConfirmationNumber s w =
     (let (r, w1) = transport_Client
                      (Api_Client ''/api/CancelBooking'' (CancelBookingPayload ConfirmationNumber)) w
      in case r of
           NoResponse \<Rightarrow> (Rejected TransportError, s, w1)
         | Response st b \<Rightarrow>
             (if st = 200 then (Resolved (), s, w1) else (Exited CancelFailed, s, w1)))"

definition checkExistBooking_Client ::
  "world_Client \<Rightarrow> (bool \<times> string list) outcome \<times> world_Client"
where
  "checkExistBooking_Client w =
     (let (r, w1) = transport_Client (Api_Client ''/api/Booking'' ExistBookingPayload) w
      in case r of
           NoResponse \<Rightarrow> (Rejected TransportError, w1)
         | Response st NotJson \<Rightarrow> (Rejected BodyError, w1)
         | Response st (ExistBookingJson response) \<Rightarrow>
             (if length response > 0 then (Resolved (True, response), w1)
              else (Resolved (False, response), w1))
         | Response st _ \<Rightarrow> (Resolved (False, []), w1))"

definition requestAvaliableLocation_Client ::
  "config \<Rightarrow> scheduler \<Rightarrow> world_Client \<Rightarrow> unit outcome \<times> scheduler \<times> world_Client"
where
  "requestAvaliableLocation_Client cfg s w =
     (let (r, w1) = transport_Client (Api_Client ''/api/AvailableLocation/'' AvaliableLocationPayload) w
      in case r of
           NoResponse \<Rightarrow> (Rejected TransportError, s, w1)
         | Response st NotJson \<Rightarrow> (Rejected BodyError, s, w1)
         | Response st (LocationsJson ls) \<Rightarrow>
             (Resolved (),
              s\<lparr>avaliableLocation := Some (filter (\<lambda>l. loc_Distance l < miles cfg) ls)\<rparr>, w1)
         | Response st _ \<Rightarrow> (Rejected TypeError, s, w1))"

text \<open>\<open>run\<close> of \<open>Client/index.ts\<close>, to the call of \<open>getLocationDatesAll\<close>.\<close>

definition run_Client ::
  "config \<Rightarrow> scheduler \<Rightarrow> world_Client \<Rightarrow> unit outcome \<times> scheduler \<times> world_Client"
where
  "run_Client cfg s w =
     (case checkExistBooking_Client w of
        (Rejected e, w1) \<Rightarrow> (Rejected e, s, w1)
      | (Exited x, w1) \<Rightarrow> (Exited x, s, w1)
      | (Resolved (exist, response), w1) \<Rightarrow>
          (if exist then
             (case response of
                [] \<Rightarrow> (Rejected TypeError, s, w1)
              | first # others \<Rightarrow>
                  (if cancelIfExist cfg then
                     (case cancelBooking_Client first s w1 of
                        (Resolved u, s2, w2) \<Rightarrow> requestAvaliableLocation_Client cfg s2 w2
                      | (Rejected e, s2, w2) \<Rightarrow> (Rejected e, s2, w2)
                      | (Exited x, s2, w2) \<Rightarrow> (Exited x, s2, w2))
                   else (Exited KeepExisting, s, w1)))
           else requestAvaliableLocation_Client cfg s w1))"

text \<open>\<open>sendWebhook\<close>, \<open>getResponseId\<close>, \<open>bookSlot\<close> and \<open>holdSlot\<close> of \<open>Client/index.ts\<close>.\<close>

definition sendWebhook_Client :: "string \<Rightarrow> world_Client \<Rightarrow> unit outcome \<times> world_Client" where
  "sendWebhook_Client message w =
     (let (r, w1) = transport_Client (Webhook_Client message) w
      in case r of
           NoResponse \<Rightarrow> (Rejected TransportError, w1)
         | Response st b \<Rightarrow> (Resolved (), w1))"

definition getResponseId_Client :: "world_Client \<Rightarrow> string outcome \<times> world_Client" where
  "getResponseId_Client w =
     (let (r, w1) = transport_Client (Api_Client ''/api/Eligibility'' EligibilityPayload) w
      in case r of
           NoResponse \<Rightarrow> (Rejected TransportError, w1)
         | Response st NotJson \<Rightarrow> (Rejected BodyError, w1)
         | Response st (EligibilityJson (rid # rest)) \<Rightarrow> (Resolved rid, w1)
         | Response st _ \<Rightarrow> (Rejected TypeError, w1))"

definition booked_message_Client :: "config \<Rightarrow> string \<Rightarrow> location \<Rightarrow> slot \<Rightarrow> string" where
  "booked_message_Client cfg conf loc booking =
     join_lines
       [''Booking for '' @ firstName cfg @ '' '' @ lastName cfg @ '' has been booked.'',
        ''Confirmation Number: '' @ conf,
        ''Location: '' @ loc_Name loc @ '' DPS'',
        ''Time: '' @ FormattedStartDateTime booking,
        ''Appointment URL: '' @ appointmentURL conf]"

definition bookSlot_Client ::
  "config \<Rightarrow> slot \<Rightarrow> location \<Rightarrow> scheduler \<Rightarrow> world_Client \<Rightarrow>
     unit outcome \<times> scheduler \<times> world_Client"
where
  "bookSlot_Client cfg booking loc s w =
     (if isBooked s then (Resolved (), s, w)
      else
        case getResponseId_Client w of
          (Rejected e, w1) \<Rightarrow> (Rejected e, s, w1)
        | (Exited x, w1) \<Rightarrow> (Exited x, s, w1)
        | (Resolved rid, w1) \<Rightarrow>
            (let (r, w2) = transport_Client (Api_Client ''/api/NewBooking''
                   (BookSlotPayload (StartDateTime booking) (Duration booking) rid (loc_Id loc))) w1
             in case r of
                  NoResponse \<Rightarrow> (Rejected TransportError, s, w2)
                | Response st b \<Rightarrow>
                    (if st = 200 then
                       (case b of
                          NotJson \<Rightarrow> (Rejected BodyError, s, w2)
                        | BookJson conf \<Rightarrow>
                            (let s1 = s\<lparr>isBooked := True\<rparr> in
                             if webhook_enable cfg then
                               (case sendWebhook_Client (booked_message_Client cfg conf loc booking) w2 of
                                  (Resolved u, w3) \<Rightarrow> (Exited BookedOk, s1, w3)
                                | (Rejected e, w3) \<Rightarrow> (Rejected e, s1, w3)
                                | (Exited x, w3) \<Rightarrow> (Exited x, s1, w3))
                             else (Exited BookedOk, s1, w2))
                        | _ \<Rightarrow> (Rejected TypeError, s, w2))
                     else (Resolved (), s\<lparr>queue_isPaused := False\<rparr>, w2))))"

definition holdSlot_Client ::
  "config \<Rightarrow> slot \<Rightarrow> location \<Rightarrow> scheduler \<Rightarrow> world_Client \<Rightarrow>
     unit outcome \<times> scheduler \<times> world_Client"
where
  "holdSlot_Client cfg booking loc s w =
     (if isHolded s then (Resolved (), s, w)
      else
        let (r, w2) = transport_Client
                        (Api_Client ''/api/HoldSlot'' (HoldSlotPayload (SlotId booking))) w
        in case r of
             NoResponse \<Rightarrow> (Rejected TransportError, s, w2)
           | Response st NotJson \<Rightarrow> (Rejected BodyError, s, w2)
           | Response st (HoldJson True) \<Rightarrow>
               bookSlot_Client cfg booking loc (s\<lparr>isHolded := True\<rparr>) w2
           | Response st _ \<Rightarrow> (Resolved (), s\<lparr>queue_isPaused := False\<rparr>, w2))"

text \<open>The filter and \<open>getLocationDates\<close> of \<open>Client/index.ts\<close>: one bound, no lower one;
  the promise resolves with \<open>true\<close> when a date qualifies and is rejected, with no
  reason, when none does.\<close>

definition in_window_Client :: "int \<Rightarrow> int \<Rightarrow> avail_date \<Rightarrow> bool" where
  "in_window_Client around now date =
     (js_lt (js_minus (AvailabilityDate date) now) (ms_d around) \<and>
      length (AvailableTimeSlots date) > 0)"

fun avaliableDates_Client :: "int \<Rightarrow> (nat \<Rightarrow> int) \<Rightarrow> nat \<Rightarrow> avail_date list \<Rightarrow> avail_date list" where
  "avaliableDates_Client around clock i [] = []"
| "avaliableDates_Client around clock i (d # ds) =
     (if in_window_Client around (clock i) d
      then d # avaliableDates_Client around clock (Suc i) ds
      else avaliableDates_Client around clock (Suc i) ds)"

definition getLocationDates_Client ::
  "config \<Rightarrow> int \<Rightarrow> (nat \<Rightarrow> int) \<Rightarrow> location \<Rightarrow> scheduler \<Rightarrow> world_Client \<Rightarrow>
     bool outcome \<times> scheduler \<times> world_Client"
where
  "getLocationDates_Client cfg around clock loc s w =
     (let (r, w1) = transport_Client (Api_Client ''/api/AvailableLocationDates''
                      (AvaliableLocationDatesPayload (loc_Id loc))) w
      in case r of
           NoResponse \<Rightarrow> (Rejected TransportError, s, w1)
         | Response st NotJson \<Rightarrow> (Rejected BodyError, s, w1)
         | Response st (DatesJson ds) \<Rightarrow>
             (case avaliableDates_Client around clock 0 ds of
                [] \<Rightarrow> (Rejected NoReason, s, w1)
              | d # rest \<Rightarrow>
                  (case AvailableTimeSlots d of
                     [] \<Rightarrow> (Rejected TypeError, s, w1)
                   | booking # others \<Rightarrow>
                       (case holdSlot_Client cfg booking loc (s\<lparr>queue_isPaused := True\<rparr>) w1 of
                          (Exited x, s2, w2) \<Rightarrow> (Exited x, s2, w2)
                        | (h, s2, w2) \<Rightarrow> (Resolved True, s2, w2))))
         | Response st _ \<Rightarrow> (Rejected TypeError, s, w1))"

section \<open>Vocabulary of the statements\<close>

text \<open>The requests a call issued: those of the world after it that the world before it
  did not hold. The state and the world a call leaves.\<close>

definition issued :: "world \<Rightarrow> world \<Rightarrow> request list" where
  "issued w w' = drop (length (sent w)) (sent w')"

definition state_after :: "'a \<times> scheduler \<times> 'w \<Rightarrow> scheduler" where
  "state_after x = fst (snd x)"

definition world_after :: "'a \<times> scheduler \<times> 'w \<Rightarrow> 'w" where
  "world_after x = snd (snd x)"

definition world_of :: "reply list \<Rightarrow> world" where
  "world_of rs = \<lparr>replies = rs, sent = []\<rparr>"

text \<open>The two requests of the notifier: a new message, silent unless important, and the
  edit of the message with a given identifier.\<close>

definition new_message :: "config \<Rightarrow> string \<Rightarrow> bool \<Rightarrow> request" where
  "new_message cfg m important =
     Telegram ''sendMessage''
       \<lparr>text_field = m, chat_id = webhook_chatId cfg, message_id = None,
        disable_notification = (if important then None else Some True)\<rparr>"

definition edit_message :: "config \<Rightarrow> string \<Rightarrow> int \<Rightarrow> request" where
  "edit_message cfg m mid =
     Telegram ''editMessageText''
       \<lparr>text_field = m, chat_id = webhook_chatId cfg, message_id = Some mid,
        disable_notification = None\<rparr>"

text \<open>What the notifier makes of a reply: the request or the parsing threw, the service
  answered \<open>ok\<close> with a message identifier, or it answered without \<open>ok\<close>.\<close>

datatype verdict = Threw reason | Ok int | NotOk

fun webhook_verdict :: "reply \<Rightarrow> verdict" where
  "webhook_verdict NoResponse = Threw TransportError"
| "webhook_verdict (Response st NotJson) = Threw BodyError"
| "webhook_verdict (Response st (WebhookOk mid)) = Ok mid"
| "webhook_verdict (Response st b) = NotOk"


text \<open>A configuration, a slot and a location for the examples.\<close>

definition cfg_example :: config where
  "cfg_example =
     \<lparr>demoOnly = False, cancelIfExist = True, webhook_enable = True, webhook_chatId = ''42'',
      daysAround = (0, 5), miles = 25, firstName = ''Ada'', lastName = ''Byron''\<rparr>"

definition slot_example :: slot where
  "slot_example =
     \<lparr>SlotId = 1001, StartDateTime = ''2023-03-01T09:00:00'',
      FormattedStartDateTime = ''3/1/2023 9:00 AM'', Duration = 30\<rparr>"

definition loc_example :: location where
  "loc_example = \<lparr>loc_Id = 7, loc_Name = ''Austin'', loc_Distance = 3\<rparr>"

text \<open>The requests of the reservation workflow. A reply refuses the hold when it parses
  and its \<open>SlotHeldSuccessfully\<close> is not \<open>true\<close>.\<close>

definition hold_request :: "slot \<Rightarrow> request" where
  "hold_request booking = Api ''/api/HoldSlot'' (HoldSlotPayload (SlotId booking))"




text \<open>The request of the prober; a reply from which the list of dates is read; worlds
  of \<open>Client/index.ts\<close>; a date with one open slot, so many days after the epoch.\<close>

definition dates_request :: "location \<Rightarrow> request" where
  "dates_request loc = Api ''/api/AvailableLocationDates'' (AvaliableLocationDatesPayload (loc_Id loc))"

fun dates_fetched :: "reply \<Rightarrow> bool" where
  "dates_fetched (Response st (DatesJson ds)) = True"
| "dates_fetched r = False"

definition dates_request_Client :: "location \<Rightarrow> request_Client" where
  "dates_request_Client loc =
     Api_Client ''/api/AvailableLocationDates'' (AvaliableLocationDatesPayload (loc_Id loc))"

definition world_of_Client :: "reply list \<Rightarrow> world_Client" where
  "world_of_Client rs = \<lparr>replies_Client = rs, sent_Client = []\<rparr>"

definition date_example :: "int \<Rightarrow> avail_date" where
  "date_example day =
     \<lparr>AvailabilityDate = Some (day * 86400000), AvailableTimeSlots = [slot_example]\<rparr>"

text \<open>The cancellation request. \<open>adds P w w'\<close>: the world \<open>w'\<close> continues \<open>w\<close>, and every request
  issued in between satisfies \<open>P\<close>. The replies of a startup that finds one booking.\<close>

definition cancel_request :: "string \<Rightarrow> request" where
  "cancel_request c = Api ''/api/CancelBooking'' (CancelBookingPayload c)"

fun is_cancel :: "request \<Rightarrow> bool" where
  "is_cancel (Api path (CancelBookingPayload c)) = True"
| "is_cancel rq = False"

definition adds :: "(request \<Rightarrow> bool) \<Rightarrow> world \<Rightarrow> world \<Rightarrow> bool" where
  "adds P w w' = (prefix (sent w) (sent w') \<and> list_all P (issued w w'))"

definition startup_replies_example :: "reply list" where
  "startup_replies_example =
     [Response 200 (WebhookOk 8), Response 200 (ExistBookingJson [''C-1'']),
      Response 200 (LocationsJson [loc_example])]"

text \<open>The operations of one run on the state of the scheduler, each with any inputs and
  any replies: the startup, a probe, a hold, a book (which the class calls only from
  \<open>holdSlot\<close>, when \<open>isHolded\<close> has been set) and a report. The states a run reaches from
  the initial one. The two properties of the latches.\<close>

inductive step :: "config \<Rightarrow> scheduler \<Rightarrow> scheduler \<Rightarrow> bool" for cfg where
  startup: "step cfg s (state_after (run cfg started s w))"
| probe: "step cfg s (state_after (getLocationDates cfg clock loc s w))"
| hold: "step cfg s (state_after (holdSlot cfg booking loc s w))"
| book: "isHolded s \<Longrightarrow> step cfg s (state_after (bookSlot cfg booking loc s w))"
| report: "step cfg s (state_after (sendWebhook cfg m important s w))"

inductive reachable :: "config \<Rightarrow> scheduler \<Rightarrow> bool" for cfg where
  initial: "reachable cfg init_scheduler"
| after: "reachable cfg s \<Longrightarrow> step cfg s s' \<Longrightarrow> reachable cfg s'"

definition latched :: "scheduler \<Rightarrow> scheduler \<Rightarrow> bool" where
  "latched s s' = ((isHolded s \<longrightarrow> isHolded s') \<and> (isBooked s \<longrightarrow> isBooked s'))"

definition invariant :: "scheduler \<Rightarrow> bool" where
  "invariant s = (isBooked s \<longrightarrow> isHolded s)"

text \<open>The replies of a hold and a booking that succeed, and the state they lead to.\<close>

definition booking_replies_example :: "reply list" where
  "booking_replies_example =
     [Response 200 (HoldJson True), Response 200 (EligibilityJson [''R-5'']),
      Response 200 (BookJson ''C-77''), Response 200 (WebhookOk 12)]"

definition booked_example :: scheduler where
  "booked_example = init_scheduler\<lparr>isBooked := True, isHolded := True\<rparr>"

text \<open>The status with which the process exits, when it does. A configuration with the
  policy to keep an existing booking and without notifications.\<close>

fun exit_status :: "'a outcome \<Rightarrow> nat option" where
  "exit_status (Exited x) = Some (exit_code x)"
| "exit_status out = None"

definition cfg_keep_example :: config where
  "cfg_keep_example = cfg_example\<lparr>cancelIfExist := False, webhook_enable := False\<rparr>"

text \<open>The requests a call of \<open>Client/index.ts\<close> issued, and two of its requests: the
  lookup of an existing booking and the cancellation.\<close>

definition issued_Client :: "world_Client \<Rightarrow> world_Client \<Rightarrow> request_Client list" where
  "issued_Client w w' = drop (length (sent_Client w)) (sent_Client w')"

definition lookup_request_Client :: request_Client where
  "lookup_request_Client = Api_Client ''/api/Booking'' ExistBookingPayload"

definition cancel_request_Client :: "string \<Rightarrow> request_Client" where
  "cancel_request_Client c = Api_Client ''/api/CancelBooking'' (CancelBookingPayload c)"

section \<open>Properties of the notifier\<close>

lemma transport_sent: "sent (snd (transport rq w)) = sent w @ [rq]"
  by (auto simp: transport_def split: list.splits)

lemma issued_transport: "issued w (snd (transport rq w)) = [rq]"
  by (simp add: issued_def transport_sent)

lemma issued_transport2:
  "issued w (snd (transport rq2 (snd (transport rq w)))) = [rq, rq2]"
  by (simp add: issued_def transport_sent)

lemma webhook_request_new:
  "sendNewMessage important s \<Longrightarrow> webhook_request cfg m important s = new_message cfg m important"
  by (simp add: webhook_request_def new_message_def)

lemma webhook_request_edit:
  "\<not> sendNewMessage important s \<Longrightarrow>
     webhook_request cfg m important s = edit_message cfg m (webhookStatusMessageId s)"
  by (simp add: webhook_request_def edit_message_def)

text \<open>A call that sends a new message issues one request and does not call itself.\<close>

lemma sendWebhook_new:
  assumes "sendNewMessage important s"
  shows "sendWebhook cfg m important s w =
     (let r = fst (transport (new_message cfg m important) w);
          w1 = snd (transport (new_message cfg m important) w)
      in case webhook_verdict r of
        Threw e \<Rightarrow> (Rejected e, s, w1)
      | Ok mid \<Rightarrow>
          (Resolved (Some mid), (if important then s else s\<lparr>webhookStatusMessageId := mid\<rparr>), w1)
      | NotOk \<Rightarrow> (Resolved None, s, w1))"
  using assms
  by (subst sendWebhook.simps)
     (auto simp: Let_def webhook_request_new split: prod.splits reply.splits body.splits)

lemma sendWebhook_edit:
  assumes "\<not> sendNewMessage important s"
  shows "sendWebhook cfg m important s w =
     (let r = fst (transport (edit_message cfg m (webhookStatusMessageId s)) w);
          w1 = snd (transport (edit_message cfg m (webhookStatusMessageId s)) w)
      in case webhook_verdict r of
        Threw e \<Rightarrow> (Rejected e, s, w1)
      | Ok mid \<Rightarrow> (Resolved (Some mid), s, w1)
      | NotOk \<Rightarrow> sendWebhook cfg m important (s\<lparr>webhookStatusMessageId := - 2\<rparr>) w1)"
  using assms
  by (subst sendWebhook.simps)
     (auto simp: Let_def webhook_request_edit split: prod.splits reply.splits body.splits)

text \<open>A call that edits: the inner call, made after the edit was answered without
  \<open>ok\<close>, finds the identifier \<open>-2\<close> and sends a new message.\<close>

lemma sendWebhook_retry:
  assumes "\<not> sendNewMessage important s"
  shows "sendWebhook cfg m important s w =
     (let rq = edit_message cfg m (webhookStatusMessageId s);
          r = fst (transport rq w); w1 = snd (transport rq w);
          r2 = fst (transport (new_message cfg m False) w1);
          w2 = snd (transport (new_message cfg m False) w1)
      in case webhook_verdict r of
        Threw e \<Rightarrow> (Rejected e, s, w1)
      | Ok mid \<Rightarrow> (Resolved (Some mid), s, w1)
      | NotOk \<Rightarrow>
          (case webhook_verdict r2 of
             Threw e \<Rightarrow> (Rejected e, s\<lparr>webhookStatusMessageId := - 2\<rparr>, w2)
           | Ok mid \<Rightarrow> (Resolved (Some mid), s\<lparr>webhookStatusMessageId := mid\<rparr>, w2)
           | NotOk \<Rightarrow> (Resolved None, s\<lparr>webhookStatusMessageId := - 2\<rparr>, w2)))"
proof -
  have i: "important = False" using assms by (simp add: sendNewMessage_def)
  have n: "sendNewMessage False (s\<lparr>webhookStatusMessageId := - 2\<rparr>)"
    by (simp add: sendNewMessage_def)
  have a: "\<not> sendNewMessage False s" using assms i by simp
  show ?thesis
    unfolding i
    by (simp add: sendWebhook_edit [OF a] sendWebhook_new [OF n] Let_def split: verdict.splits)
qed







text \<open>
  Claim C10, as amended. A call marked important leaves the whole state of the
  scheduler, and so the stored identifier, as it found it, whatever the reply. When a
  call changes the stored identifier, the call is not marked important and either its
  last request is a silent \<open>sendMessage\<close> that succeeded and returned the identifier now
  stored, or an edit was answered without \<open>ok\<close> and the identifier is now \<open>-2\<close>.
\<close>

theorem important_report_keeps_reference:
  "state_after (sendWebhook cfg m True s w) = s
   \<and> (webhookStatusMessageId (state_after (sendWebhook cfg m important s w))
          \<noteq> webhookStatusMessageId s \<longrightarrow>
        \<not> important \<and>
        (fst (sendWebhook cfg m important s w) =
             Resolved (Some (webhookStatusMessageId (state_after (sendWebhook cfg m important s w)))) \<and>
           last (issued w (world_after (sendWebhook cfg m important s w))) = new_message cfg m False
         \<or> webhookStatusMessageId (state_after (sendWebhook cfg m important s w)) = - 2 \<and>
           0 \<le> webhookStatusMessageId s \<and>
           webhook_verdict (fst (transport (edit_message cfg m (webhookStatusMessageId s)) w)) = NotOk))"
proof (cases "sendNewMessage important s")
  case True
  then show ?thesis
    by (auto simp: state_after_def world_after_def sendWebhook_new Let_def sendNewMessage_def
          issued_transport split: verdict.splits)
next
  case False
  then have i: "important = False" and p: "0 \<le> webhookStatusMessageId s"
    by (simp_all add: sendNewMessage_def)
  have a: "\<not> sendNewMessage False s" using False i by simp
  have t: "sendNewMessage True s" by (simp add: sendNewMessage_def)
  show ?thesis
    using p unfolding i
    by (auto simp: state_after_def world_after_def sendWebhook_retry [OF a]
          sendWebhook_new [OF t] Let_def issued_transport issued_transport2 split: verdict.splits)
qed

text \<open>
  Witness of C10: a first, silent message that succeeds stores its identifier 8; an
  important message sent while 7 is stored leaves 7 stored.
\<close>

theorem important_report_keeps_reference_witness:
  "webhookStatusMessageId (state_after (sendWebhook cfg_example ''status'' False init_scheduler
       (world_of [Response 200 (WebhookOk 8)]))) \<noteq> webhookStatusMessageId init_scheduler
   \<and> fst (sendWebhook cfg_example ''status'' False init_scheduler
       (world_of [Response 200 (WebhookOk 8)])) = Resolved (Some 8)
   \<and> webhookStatusMessageId (state_after (sendWebhook cfg_example ''status'' False init_scheduler
       (world_of [Response 200 (WebhookOk 8)]))) = 8
   \<and> state_after (sendWebhook cfg_example ''booked'' True (init_scheduler\<lparr>webhookStatusMessageId := 7\<rparr>)
       (world_of [Response 200 (WebhookOk 9)])) = init_scheduler\<lparr>webhookStatusMessageId := 7\<rparr>"
  using important_report_keeps_reference [of cfg_example "''status''" init_scheduler
      "world_of [Response 200 (WebhookOk 8)]" False]
    important_report_keeps_reference [of cfg_example "''booked''"
      "init_scheduler\<lparr>webhookStatusMessageId := 7\<rparr>" "world_of [Response 200 (WebhookOk 9)]" True]
  by (simp add: state_after_def sendWebhook_new sendNewMessage_def init_scheduler_def world_of_def
        transport_def Let_def)

text \<open>
  Counterexample to C10 as stated: with 7 stored, the edit and the new message that
  follows are both answered with an error; no send succeeded, and the stored identifier
  is no longer 7.
\<close>

theorem failed_edit_changes_reference_counterexample:
  "webhookStatusMessageId (init_scheduler\<lparr>webhookStatusMessageId := 7\<rparr>) = 7
   \<and> fst (sendWebhook cfg_example ''status'' False (init_scheduler\<lparr>webhookStatusMessageId := 7\<rparr>)
       (world_of [Response 400 (WebhookError ''message to edit not found''),
                  Response 400 (WebhookError ''chat not found'')])) = Resolved None
   \<and> webhookStatusMessageId (state_after (sendWebhook cfg_example ''status'' False
       (init_scheduler\<lparr>webhookStatusMessageId := 7\<rparr>)
       (world_of [Response 400 (WebhookError ''message to edit not found''),
                  Response 400 (WebhookError ''chat not found'')]))) = - 2"
  by (simp add: state_after_def sendWebhook_retry sendNewMessage_def init_scheduler_def world_of_def
        transport_def Let_def)

section \<open>Properties of the reservation workflow\<close>

lemma issued_self: "issued w w = []"
  by (simp add: issued_def)

text \<open>
  Claim C3. In demo mode \<open>holdSlot\<close>, \<open>bookSlot\<close> and \<open>cancelBooking\<close> exit the process with
  the reason of the demo refusal, whose exit code is 2, before anything else: the state
  and the world are those of the call, so no request was issued.
\<close>

theorem dry_run_refuses:
  "demoOnly cfg \<Longrightarrow>
     holdSlot cfg booking loc s w = (Exited DemoRefusal, s, w) \<and>
     bookSlot cfg booking loc s w = (Exited DemoRefusal, s, w) \<and>
     cancelBooking cfg conf s w = (Exited DemoRefusal, s, w) \<and>
     issued w w = [] \<and> exit_code DemoRefusal = 2"
  by (simp add: holdSlot_def bookSlot_def cancelBooking_def issued_def)

text \<open>Witness of C3: the example configuration with demo mode switched on.\<close>

theorem dry_run_refuses_witness:
  "demoOnly (cfg_example\<lparr>demoOnly := True\<rparr>) \<and>
   holdSlot (cfg_example\<lparr>demoOnly := True\<rparr>) slot_example loc_example init_scheduler
     (world_of [Response 200 (HoldJson True)]) =
     (Exited DemoRefusal, init_scheduler, world_of [Response 200 (HoldJson True)]) \<and>
   sent (world_of [Response 200 (HoldJson True)]) = []"
  using dry_run_refuses [of "cfg_example\<lparr>demoOnly := True\<rparr>" slot_example loc_example
      init_scheduler "world_of [Response 200 (HoldJson True)]" "''C-1''"]
  by (simp add: cfg_example_def world_of_def)









section \<open>Properties of the location prober\<close>


lemma avaliableDates_by_index:
  "avaliableDates cfg clock i ds =
     map snd (filter (\<lambda>(j, d). in_window cfg (clock j) d) (zip [i..<i + length ds] ds))"
proof (induction ds arbitrary: i)
  case Nil
  then show ?case by simp
next
  case (Cons d ds)
  have "[i..<i + length (d # ds)] = i # [Suc i..<Suc i + length ds]"
    by (subst upt_rec) simp
  then show ?case using Cons [of "Suc i"] by simp
qed





lemma avaliableDates_slots:
  "d \<in> set (avaliableDates cfg clock i ds) \<Longrightarrow> AvailableTimeSlots d \<noteq> []"
  by (induction ds arbitrary: i) (auto simp: in_window_def Let_def split: if_splits)

lemma getLocationDates_fetched:
  assumes "requestApi ''/api/AvailableLocationDates'' (AvaliableLocationDatesPayload (loc_Id loc)) w =
             (Response st (DatesJson ds), w1)"
  shows "fst (getLocationDates cfg clock loc s w) = Resolved (loc, ds) \<or>
         (\<exists>x. fst (getLocationDates cfg clock loc s w) = Exited x)"
proof (cases "avaliableDates cfg clock 0 ds")
  case Nil
  then show ?thesis using assms by (simp add: getLocationDates_def)
next
  case (Cons d rest)
  then have "AvailableTimeSlots d \<noteq> []"
    using avaliableDates_slots [of d cfg clock 0 ds] by simp
  then obtain booking others where b: "AvailableTimeSlots d = booking # others"
    by (cases "AvailableTimeSlots d") auto
  show ?thesis
    using assms Cons b
    by (cases "holdSlot cfg booking loc (s\<lparr>queue_isPaused := True\<rparr>) w1")
       (auto simp: getLocationDates_def Let_def split: outcome.splits)
qed

lemma getLocationDates_not_fetched:
  assumes "\<not> dates_fetched (fst (requestApi ''/api/AvailableLocationDates''
             (AvaliableLocationDatesPayload (loc_Id loc)) w))"
  shows "\<exists>e. fst (getLocationDates cfg clock loc s w) = Rejected e"
proof -
  obtain r w1 where t: "requestApi ''/api/AvailableLocationDates''
             (AvaliableLocationDatesPayload (loc_Id loc)) w = (r, w1)"
    by (cases "requestApi ''/api/AvailableLocationDates''
             (AvaliableLocationDatesPayload (loc_Id loc)) w")
  with assms have "\<not> dates_fetched r" by simp
  then show ?thesis
    using t by (cases r rule: dates_fetched.cases) (simp_all add: getLocationDates_def)
qed

lemma avaliableDates_Client_slots:
  "d \<in> set (avaliableDates_Client around clock i ds) \<Longrightarrow> AvailableTimeSlots d \<noteq> []"
  by (induction ds arbitrary: i) (auto simp: in_window_Client_def split: if_splits)

lemma getLocationDates_exit:
  assumes "requestApi ''/api/AvailableLocationDates'' (AvaliableLocationDatesPayload (loc_Id loc)) w =
             (Response st (DatesJson ds), w1)"
    and "fst (getLocationDates cfg clock loc s w) = Exited x"
  shows "avaliableDates cfg clock 0 ds \<noteq> [] \<and> \<not> demoOnly cfg"
  using assms
  by (auto simp: getLocationDates_def Let_def split: list.splits if_splits)

lemma getLocationDates_Client_candidate:
  assumes "transport_Client (dates_request_Client loc) wc = (Response st (DatesJson ds), w1)"
    and "avaliableDates_Client around clock 0 ds \<noteq> []"
  shows "fst (getLocationDates_Client cfg around clock loc s wc) = Resolved True \<or>
         (\<exists>x. fst (getLocationDates_Client cfg around clock loc s wc) = Exited x)"
proof (cases "avaliableDates_Client around clock 0 ds")
  case Nil
  then show ?thesis using assms(2) by simp
next
  case (Cons d rest)
  then have "AvailableTimeSlots d \<noteq> []"
    using avaliableDates_Client_slots [of d around clock 0 ds] by simp
  then obtain booking others where b: "AvailableTimeSlots d = booking # others"
    by (cases "AvailableTimeSlots d") auto
  show ?thesis
    using assms(1) Cons b
    by (cases "holdSlot_Client cfg booking loc (s\<lparr>queue_isPaused := True\<rparr>) w1")
       (auto simp: getLocationDates_Client_def dates_request_Client_def split: outcome.splits)
qed

lemma getLocationDates_Client_not_fetched:
  assumes "\<not> dates_fetched (fst (transport_Client (dates_request_Client loc) wc))"
  shows "\<exists>e. fst (getLocationDates_Client cfg around clock loc s wc) = Rejected e \<and> e \<noteq> NoReason"
proof -
  obtain r w1 where t: "transport_Client (dates_request_Client loc) wc = (r, w1)"
    by (cases "transport_Client (dates_request_Client loc) wc")
  with assms have "\<not> dates_fetched r" by simp
  then show ?thesis
    using t
    by (cases r rule: dates_fetched.cases)
       (simp_all add: getLocationDates_Client_def dates_request_Client_def)
qed

text \<open>
  Claim C7, as amended. In the current client the probe is rejected exactly when the
  fetch fails (no response, a body that does not parse, or a body without the list of
  dates). When the dates are fetched, it resolves with the pair of the location and the
  response, or else the process exits in the hold that the probe started, which needs a
  qualifying window and no demo mode; with no qualifying window it resolves with that
  pair and leaves the state as it was, so "no candidate" is a present value, the same as
  with a candidate. In \<open>Client/index.ts\<close> a probe with no qualifying window is rejected,
  with no reason; with a qualifying window it resolves with \<open>true\<close>, or else the process
  exits in the hold that the probe started; and when the fetch fails it is rejected with
  a reason.
\<close>

theorem probe_rejects_only_on_fetch_failure:
  "((\<exists>e. fst (getLocationDates cfg clock loc s w) = Rejected e) =
      (\<not> dates_fetched (fst (transport (dates_request loc) w))))
   \<and> (fst (transport (dates_request loc) w) = Response st (DatesJson ds) \<longrightarrow>
        fst (getLocationDates cfg clock loc s w) = Resolved (loc, ds) \<or>
        (\<exists>x. fst (getLocationDates cfg clock loc s w) = Exited x) \<and>
          avaliableDates cfg clock 0 ds \<noteq> [] \<and> \<not> demoOnly cfg)
   \<and> (fst (transport (dates_request loc) w) = Response st (DatesJson ds) \<and>
        avaliableDates cfg clock 0 ds = [] \<longrightarrow>
        getLocationDates cfg clock loc s w =
          (Resolved (loc, ds), s, snd (transport (dates_request loc) w)))
   \<and> (fst (transport_Client (dates_request_Client loc) wc) = Response st (DatesJson ds) \<and>
        avaliableDates_Client around clock 0 ds = [] \<longrightarrow>
        getLocationDates_Client cfg around clock loc s wc =
          (Rejected NoReason, s, snd (transport_Client (dates_request_Client loc) wc)))
   \<and> (fst (transport_Client (dates_request_Client loc) wc) = Response st (DatesJson ds) \<and>
        avaliableDates_Client around clock 0 ds \<noteq> [] \<longrightarrow>
        fst (getLocationDates_Client cfg around clock loc s wc) = Resolved True \<or>
        (\<exists>x. fst (getLocationDates_Client cfg around clock loc s wc) = Exited x))
   \<and> (\<not> dates_fetched (fst (transport_Client (dates_request_Client loc) wc)) \<longrightarrow>
        (\<exists>e. fst (getLocationDates_Client cfg around clock loc s wc) = Rejected e \<and> e \<noteq> NoReason))"
proof -
  let ?r = "fst (transport (dates_request loc) w)"
  have rq: "requestApi ''/api/AvailableLocationDates'' (AvaliableLocationDatesPayload (loc_Id loc)) w =
              transport (dates_request loc) w"
    by (simp add: requestApi_def dates_request_def)
  have fetched: "fst (getLocationDates cfg clock loc s w) = Resolved (loc, ds') \<or>
         (\<exists>x. fst (getLocationDates cfg clock loc s w) = Exited x)"
    if "?r = Response st' (DatesJson ds')" for st' ds'
    using getLocationDates_fetched [of loc w st' ds' "snd (transport (dates_request loc) w)"] that rq
    by (metis prod.collapse)
  have exits: "avaliableDates cfg clock 0 ds' \<noteq> [] \<and> \<not> demoOnly cfg"
    if "?r = Response st' (DatesJson ds')" "fst (getLocationDates cfg clock loc s w) = Exited x"
    for st' ds' x
    using getLocationDates_exit [of loc w st' ds' "snd (transport (dates_request loc) w)" cfg clock s x]
      that rq
    by (metis prod.collapse)
  have a: "(\<exists>e. fst (getLocationDates cfg clock loc s w) = Rejected e) = (\<not> dates_fetched ?r)"
  proof (cases "dates_fetched ?r")
    case True
    then obtain st' ds' where "?r = Response st' (DatesJson ds')"
      by (cases ?r rule: dates_fetched.cases) simp_all
    from fetched [OF this] True show ?thesis by auto
  next
    case False
    then show ?thesis
      using getLocationDates_not_fetched [of loc w cfg clock s] rq by simp
  qed
  have b: "fst (getLocationDates cfg clock loc s w) = Resolved (loc, ds) \<or>
        (\<exists>x. fst (getLocationDates cfg clock loc s w) = Exited x) \<and>
          avaliableDates cfg clock 0 ds \<noteq> [] \<and> \<not> demoOnly cfg"
    if "?r = Response st (DatesJson ds)"
    using fetched [OF that] exits [OF that] by blast
  have c: "getLocationDates cfg clock loc s w =
          (Resolved (loc, ds), s, snd (transport (dates_request loc) w))"
    if "?r = Response st (DatesJson ds)" "avaliableDates cfg clock 0 ds = []"
    using that rq by (auto simp: getLocationDates_def split: prod.splits)
  have d: "getLocationDates_Client cfg around clock loc s wc =
          (Rejected NoReason, s, snd (transport_Client (dates_request_Client loc) wc))"
    if "fst (transport_Client (dates_request_Client loc) wc) = Response st (DatesJson ds)"
       "avaliableDates_Client around clock 0 ds = []"
    using that
    by (auto simp: getLocationDates_Client_def dates_request_Client_def split: prod.splits)
  have e: "fst (getLocationDates_Client cfg around clock loc s wc) = Resolved True \<or>
        (\<exists>x. fst (getLocationDates_Client cfg around clock loc s wc) = Exited x)"
    if "fst (transport_Client (dates_request_Client loc) wc) = Response st (DatesJson ds)"
       "avaliableDates_Client around clock 0 ds \<noteq> []"
    using getLocationDates_Client_candidate [of loc wc st ds
        "snd (transport_Client (dates_request_Client loc) wc)" around clock cfg s] that
    by (metis prod.collapse)
  have f: "\<exists>e. fst (getLocationDates_Client cfg around clock loc s wc) = Rejected e \<and> e \<noteq> NoReason"
    if "\<not> dates_fetched (fst (transport_Client (dates_request_Client loc) wc))"
    using that by (rule getLocationDates_Client_not_fetched)
  show ?thesis using a b c d e f by blast
qed

text \<open>Witness of C7: one date, ten days away, outside the window of five days; one
  date, three days away, inside it, with the hold refused; and no response at all.\<close>

theorem probe_rejects_only_on_fetch_failure_witness:
  "fst (transport (dates_request loc_example) (world_of [Response 200 (DatesJson [date_example 10])])) =
     Response 200 (DatesJson [date_example 10])
   \<and> dates_fetched (fst (transport (dates_request loc_example)
        (world_of [Response 200 (DatesJson [date_example 10])])))
   \<and> avaliableDates cfg_example (\<lambda>i. 0) 0 [date_example 10] = []
   \<and> getLocationDates cfg_example (\<lambda>i. 0) loc_example init_scheduler
        (world_of [Response 200 (DatesJson [date_example 10])]) =
       (Resolved (loc_example, [date_example 10]), init_scheduler,
        \<lparr>replies = [], sent = [dates_request loc_example]\<rparr>)
   \<and> fst (transport_Client (dates_request_Client loc_example)
        (world_of_Client [Response 200 (DatesJson [date_example 10])])) =
     Response 200 (DatesJson [date_example 10])
   \<and> avaliableDates_Client 5 (\<lambda>i. 0) 0 [date_example 10] = []
   \<and> getLocationDates_Client cfg_example 5 (\<lambda>i. 0) loc_example init_scheduler
        (world_of_Client [Response 200 (DatesJson [date_example 10])]) =
       (Rejected NoReason, init_scheduler,
        \<lparr>replies_Client = [], sent_Client = [dates_request_Client loc_example]\<rparr>)
   \<and> fst (transport_Client (dates_request_Client loc_example)
        (world_of_Client [Response 200 (DatesJson [date_example 3]), Response 200 (HoldJson False)])) =
     Response 200 (DatesJson [date_example 3])
   \<and> avaliableDates_Client 5 (\<lambda>i. 0) 0 [date_example 3] = [date_example 3]
   \<and> fst (getLocationDates_Client cfg_example 5 (\<lambda>i. 0) loc_example init_scheduler
        (world_of_Client [Response 200 (DatesJson [date_example 3]), Response 200 (HoldJson False)])) =
       Resolved True
   \<and> fst (transport_Client (dates_request_Client loc_example) (world_of_Client [])) = NoResponse
   \<and> fst (getLocationDates_Client cfg_example 5 (\<lambda>i. 0) loc_example init_scheduler
        (world_of_Client [])) = Rejected TransportError"
  using probe_rejects_only_on_fetch_failure [of cfg_example "\<lambda>i. 0" loc_example init_scheduler
      "world_of [Response 200 (DatesJson [date_example 10])]" 200 "[date_example 10]"
      "world_of_Client [Response 200 (DatesJson [date_example 10])]" 5]
    probe_rejects_only_on_fetch_failure [where cfg = cfg_example and clock = "\<lambda>i. 0"
      and loc = loc_example and s = init_scheduler and st = 200 and ds = "[date_example 3]"
      and around = 5
      and wc = "world_of_Client [Response 200 (DatesJson [date_example 3]), Response 200 (HoldJson False)]"]
    probe_rejects_only_on_fetch_failure [where cfg = cfg_example and clock = "\<lambda>i. 0"
      and loc = loc_example and s = init_scheduler and around = 5 and wc = "world_of_Client []"]
  by (simp add: world_of_def world_of_Client_def transport_def transport_Client_def
        in_window_def in_window_Client_def cfg_example_def date_example_def ms_d_def
        getLocationDates_Client_def holdSlot_Client_def dates_request_Client_def slot_example_def)

text \<open>
  Counterexample to C7 as stated: no window qualifies; the probe of \<open>Client/index.ts\<close> is
  rejected, an error, and the probe of the current client resolves with the location
  and the response, not with an absent result.
\<close>

theorem no_candidate_is_rejection_counterexample:
  "avaliableDates_Client 5 (\<lambda>i. 0) 0 [date_example 10] = []
   \<and> fst (getLocationDates_Client cfg_example 5 (\<lambda>i. 0) loc_example init_scheduler
        (world_of_Client [Response 200 (DatesJson [date_example 10])])) = Rejected NoReason
   \<and> avaliableDates cfg_example (\<lambda>i. 0) 0 [date_example 10] = []
   \<and> fst (getLocationDates cfg_example (\<lambda>i. 0) loc_example init_scheduler
        (world_of [Response 200 (DatesJson [date_example 10])])) =
       Resolved (loc_example, [date_example 10])"
  by (simp add: world_of_def world_of_Client_def transport_def transport_Client_def requestApi_def
        getLocationDates_def getLocationDates_Client_def
        in_window_def in_window_Client_def cfg_example_def date_example_def ms_d_def)

section \<open>Properties of the orchestrator\<close>

lemma adds_refl: "adds P w w"
  by (simp add: adds_def issued_def)

lemma adds_trans: "adds P w w1 \<Longrightarrow> adds P w1 w2 \<Longrightarrow> adds P w w2"
  by (auto simp: adds_def issued_def prefix_def)

lemma adds_transport: "P rq \<Longrightarrow> adds P w (snd (transport rq w))"
  by (simp add: adds_def issued_def transport_sent)

lemma adds_transport': "transport rq w = (r, w1) \<Longrightarrow> P rq \<Longrightarrow> adds P w w1"
  using adds_transport [of P rq w] by simp

lemma adds_requestApi: "requestApi path b w = (r, w1) \<Longrightarrow> P (Api path b) \<Longrightarrow> adds P w w1"
  unfolding requestApi_def by (rule adds_transport')

lemma adds_sendWebhook:
  "adds (\<lambda>rq. \<not> is_cancel rq) w (snd (snd (sendWebhook cfg m important s w)))"
proof (cases "sendNewMessage important s")
  case True
  then show ?thesis
    by (auto simp: sendWebhook_new Let_def new_message_def intro!: adds_transport
          split: verdict.splits)
next
  case False
  then show ?thesis
    by (auto simp: sendWebhook_retry Let_def new_message_def edit_message_def
          intro!: adds_transport adds_trans [OF adds_transport adds_transport]
          split: verdict.splits)
qed

lemma adds_run_notify:
  "adds (\<lambda>rq. \<not> is_cancel rq) w (world_after (run_notify cfg started s w))"
  using adds_sendWebhook [of w cfg "''TX DPS Scheduler Starting at '' @ started" False s]
  by (auto simp: run_notify_def world_after_def adds_refl split: prod.splits outcome.splits)

lemma adds_checkExistBooking:
  "adds (\<lambda>rq. \<not> is_cancel rq) w (snd (checkExistBooking w))"
  by (auto simp: checkExistBooking_def requestApi_def Let_def intro!: adds_transport'
        split: prod.splits reply.splits body.splits)

lemma adds_requestAvaliableLocation:
  "adds (\<lambda>rq. \<not> is_cancel rq) w (world_after (requestAvaliableLocation cfg s w))"
  by (auto simp: requestAvaliableLocation_def requestApi_def Let_def world_after_def
        intro!: adds_transport' split: prod.splits reply.splits body.splits)

lemma adds_run_existing:
  "adds (\<lambda>rq. \<not> is_cancel rq) w (world_after (run_existing cfg s w))"
proof -
  obtain out w1 where c: "checkExistBooking w = (out, w1)"
    by (cases "checkExistBooking w")
  then have a: "adds (\<lambda>rq. \<not> is_cancel rq) w w1"
    using adds_checkExistBooking [of w] by simp
  have b: "adds (\<lambda>rq. \<not> is_cancel rq) w1 (world_after (requestAvaliableLocation cfg s' w1))" for s'
    by (rule adds_requestAvaliableLocation)
  show ?thesis
    using c a adds_trans [OF a b]
    by (auto simp: run_existing_def world_after_def split: outcome.splits list.splits)
qed

lemma adds_run:
  "adds (\<lambda>rq. \<not> is_cancel rq) w (world_after (run cfg started s w))"
proof -
  obtain out s1 w1 where n: "run_notify cfg started s w = (out, s1, w1)"
    by (cases "run_notify cfg started s w")
  then have a: "adds (\<lambda>rq. \<not> is_cancel rq) w w1"
    using adds_run_notify [of w cfg started s] by (simp add: world_after_def)
  show ?thesis
    using n a adds_trans [OF a adds_run_existing [of w1 cfg s1]]
    by (auto simp: run_def world_after_def split: outcome.splits)
qed


lemma issued_append:
  "prefix (sent w) (sent w1) \<Longrightarrow> prefix (sent w1) (sent w2) \<Longrightarrow>
     issued w w2 = issued w w1 @ issued w1 w2"
  by (auto simp: issued_def prefix_def)

lemma adds_issued:
  "adds P w w1 \<Longrightarrow> adds P w1 w2 \<Longrightarrow> issued w w2 = issued w w1 @ issued w1 w2"
  by (simp add: adds_def issued_append)

lemma adds_filter: "adds (\<lambda>rq. \<not> is_cancel rq) w w1 \<Longrightarrow> filter is_cancel (issued w w1) = []"
  by (simp add: adds_def list_all_iff filter_empty_conv)

lemma adds_getResponseId: "adds (\<lambda>rq. \<not> is_cancel rq) w (snd (getResponseId w))"
  by (auto simp: getResponseId_def requestApi_def Let_def intro!: adds_transport'
        split: prod.splits reply.splits body.splits list.splits)

lemma adds_bookSlot:
  "adds (\<lambda>rq. \<not> is_cancel rq) w (world_after (bookSlot cfg booking loc s w))"
proof (cases "demoOnly cfg \<or> isBooked s")
  case True
  then show ?thesis by (auto simp: bookSlot_def world_after_def adds_refl)
next
  case False
  let ?P = "\<lambda>rq. \<not> is_cancel rq"
  obtain out w1 where g: "getResponseId w = (out, w1)" by (cases "getResponseId w")
  then have a: "adds ?P w w1" using adds_getResponseId [of w] by simp
  show ?thesis
  proof (cases out)
    case (Resolved rid)
    obtain r w2 where b: "requestApi ''/api/NewBooking''
        (BookSlotPayload (StartDateTime booking) (Duration booking) rid (loc_Id loc)) w1 = (r, w2)"
      by (cases "requestApi ''/api/NewBooking''
        (BookSlotPayload (StartDateTime booking) (Duration booking) rid (loc_Id loc)) w1")
    have ab: "adds ?P w w2"
      using a adds_requestApi [OF b, of ?P] by (auto intro: adds_trans)
    have abc: "adds ?P w w3" if "sendWebhook cfg m True s' w2 = (out', s3, w3)" for m s' out' s3 w3
      using ab adds_sendWebhook [of w2 cfg m True s'] that by (auto intro: adds_trans)
    show ?thesis
    proof (cases r)
      case NoResponse
      then show ?thesis
        using False g Resolved b ab by (simp add: bookSlot_def world_after_def)
    next
      case (Response st bd)
      show ?thesis
      proof (cases "st = 200")
        case ok: True
        show ?thesis
          using False g Resolved b ab abc Response ok
          by (cases bd)
             (auto simp: bookSlot_def world_after_def Let_def split: prod.splits outcome.splits)
      next
        case bad: False
        then show ?thesis
          using False g Resolved b ab Response by (simp add: bookSlot_def world_after_def)
      qed
    qed
  next
    case (Rejected e)
    then show ?thesis using False g a by (simp add: bookSlot_def world_after_def)
  next
    case (Exited x)
    then show ?thesis using False g a by (simp add: bookSlot_def world_after_def)
  qed
qed


lemma holdSlot_staged:
  assumes "\<not> demoOnly cfg" and "\<not> isHolded s"
    and "existingBookingConfirmationNumber s = c" and "c \<noteq> []"
  shows "(issued w (world_after (holdSlot cfg booking loc s w)) = [cancel_request c] \<or>
          take 2 (issued w (world_after (holdSlot cfg booking loc s w))) =
            [cancel_request c, hold_request booking]) \<and>
         filter is_cancel (issued w (world_after (holdSlot cfg booking loc s w))) =
           [cancel_request c]"
proof -
  let ?W = "world_after (holdSlot cfg booking loc s w)"
  obtain r1 w1 where t1: "transport (cancel_request c) w = (r1, w1)"
    by (cases "transport (cancel_request c) w")
  have i1: "issued w w1 = [cancel_request c]" and p1: "prefix (sent w) (sent w1)"
    using t1 issued_transport [of w "cancel_request c"] transport_sent [of "cancel_request c" w]
    by simp_all
  have ce: "cancel_existing cfg s w =
      (case r1 of NoResponse \<Rightarrow> (Rejected TransportError, s, w1)
       | Response st b \<Rightarrow> if st = 200 then (Resolved (), s, w1) else (Exited CancelFailed, s, w1))"
    using assms t1
    by (simp add: cancel_existing_def cancelBooking_def requestApi_def cancel_request_def)
  have single: "?thesis" if "?W = w1"
    using that i1 by (simp add: cancel_request_def)
  obtain r2 w2 where t2: "transport (hold_request booking) w1 = (r2, w2)"
    by (cases "transport (hold_request booking) w1")
  have p2: "prefix (sent w1) (sent w2)" and i12: "issued w1 w2 = [hold_request booking]"
    using t2 issued_transport [of w1 "hold_request booking"]
      transport_sent [of "hold_request booking" w1]
    by simp_all
  have i2: "issued w w2 = [cancel_request c, hold_request booking]"
    using issued_append [OF p1 p2] i1 i12 by simp
  have pair: "?thesis" if "prefix (sent w2) (sent ?W)" "filter is_cancel (issued w2 ?W) = []"
  proof -
    have "issued w ?W = [cancel_request c, hold_request booking] @ issued w2 ?W"
      using issued_append [OF prefix_order.trans [OF p1 p2] that(1)] i2 by simp
    then show ?thesis
      using that(2) by (simp add: cancel_request_def hold_request_def)
  qed
  have pair_w2: "?thesis" if "?W = w2"
    using pair that by (simp add: issued_self)
  have rq: "requestApi ''/api/HoldSlot'' (HoldSlotPayload (SlotId booking)) w1 = (r2, w2)"
    using t2 by (simp add: requestApi_def hold_request_def)
  show ?thesis
  proof (cases r1)
    case NoResponse
    then show ?thesis
      using single assms ce by (simp add: holdSlot_def world_after_def)
  next
    case (Response st b)
    show ?thesis
    proof (cases "st = 200")
      case False
      then show ?thesis
        using single assms ce Response by (simp add: holdSlot_def world_after_def)
    next
      case True
      then have h: "holdSlot cfg booking loc s w =
          (case r2 of
             NoResponse \<Rightarrow> (Rejected TransportError, s, w2)
           | Response st NotJson \<Rightarrow> (Rejected BodyError, s, w2)
           | Response st (HoldJson True) \<Rightarrow> bookSlot cfg booking loc (s\<lparr>isHolded := True\<rparr>) w2
           | Response st _ \<Rightarrow> (Resolved (), s\<lparr>queue_isPaused := False\<rparr>, w2))"
        using assms ce Response rq by (simp add: holdSlot_def)
      show ?thesis
      proof (cases "\<exists>st2. r2 = Response st2 (HoldJson True)")
        case True
        then have "?W = world_after (bookSlot cfg booking loc (s\<lparr>isHolded := True\<rparr>) w2)"
          using h by auto
        then show ?thesis
          using pair adds_bookSlot [of w2 cfg booking loc "s\<lparr>isHolded := True\<rparr>"]
          by (simp add: adds_def adds_filter)
      next
        case False
        then have "?W = w2"
          using h by (auto simp: world_after_def split: reply.splits body.splits bool.splits)
        then show ?thesis by (rule pair_w2)
      qed
    qed
  qed
qed


lemma requestAvaliableLocation_staged:
  "existingBookingConfirmationNumber (state_after (requestAvaliableLocation cfg s w)) =
     existingBookingConfirmationNumber s"
  by (auto simp: requestAvaliableLocation_def state_after_def Let_def
        split: prod.splits reply.splits body.splits)

lemma transport_Client_sent:
  "sent_Client (snd (transport_Client rq w)) = sent_Client w @ [rq]"
  by (auto simp: transport_Client_def split: list.splits)

lemma checkExistBooking_Client_world:
  "snd (checkExistBooking_Client w) = snd (transport_Client lookup_request_Client w)"
  by (auto simp: checkExistBooking_Client_def lookup_request_Client_def Let_def
        split: prod.splits reply.splits body.splits)

lemma requestAvaliableLocation_Client_result:
  "state_after (requestAvaliableLocation_Client cfg s w) = s \<or>
   (\<exists>ls. state_after (requestAvaliableLocation_Client cfg s w) = s\<lparr>avaliableLocation := ls\<rparr>)"
  "world_after (requestAvaliableLocation_Client cfg s w) =
     snd (transport_Client (Api_Client ''/api/AvailableLocation/'' AvaliableLocationPayload) w)"
  by (auto simp: requestAvaliableLocation_Client_def state_after_def world_after_def Let_def
        split: prod.splits reply.splits body.splits)

lemma cancelBooking_Client_result:
  "state_after (cancelBooking_Client c s w) = s"
  "world_after (cancelBooking_Client c s w) = snd (transport_Client (cancel_request_Client c) w)"
  by (auto simp: cancelBooking_Client_def cancel_request_Client_def state_after_def world_after_def
        Let_def split: prod.splits reply.splits)

lemma run_Client_nothing_staged:
  "existingBookingConfirmationNumber (state_after (run_Client cfg s w)) =
     existingBookingConfirmationNumber s"
proof -
  have ra: "existingBookingConfirmationNumber (fst (snd (requestAvaliableLocation_Client cfg s' w'))) =
      existingBookingConfirmationNumber s'" for s' w'
    using requestAvaliableLocation_Client_result(1) [of cfg s' w']
    by (auto simp: state_after_def)
  have cb: "cancelBooking_Client c s w' = (out, s2, w2) \<Longrightarrow> s2 = s" for c w' out s2 w2
    using cancelBooking_Client_result(1) [of c s w'] by (simp add: state_after_def)
  show ?thesis
    by (auto simp: run_Client_def state_after_def ra dest!: cb
          split: prod.splits outcome.splits list.splits)
qed

lemma run_Client_cancels_at_startup:
  assumes "checkExistBooking_Client w = (Resolved (True, first # others), w1)"
    and "cancelIfExist cfg"
  shows "take 2 (issued_Client w (world_after (run_Client cfg s w))) =
           [lookup_request_Client, cancel_request_Client first]"
proof -
  have w1: "sent_Client w1 = sent_Client w @ [lookup_request_Client]"
    using assms(1) checkExistBooking_Client_world [of w] transport_Client_sent [of lookup_request_Client w]
    by simp
  obtain out s2 w2 where c: "cancelBooking_Client first s w1 = (out, s2, w2)"
    by (cases "cancelBooking_Client first s w1")
  then have w2: "sent_Client w2 = sent_Client w @ [lookup_request_Client, cancel_request_Client first]"
    using cancelBooking_Client_result(2) [of first s w1]
      transport_Client_sent [of "cancel_request_Client first" w1] w1
    by (simp add: world_after_def)
  have w3: "sent_Client (world_after (requestAvaliableLocation_Client cfg s2 w2)) =
      sent_Client w @ [lookup_request_Client, cancel_request_Client first,
        Api_Client ''/api/AvailableLocation/'' AvaliableLocationPayload]"
    using requestAvaliableLocation_Client_result(2) [of cfg s2 w2] w2
    by (simp add: transport_Client_sent)
  show ?thesis
    using assms c w2 w3
    by (cases out) (simp_all add: run_Client_def issued_Client_def world_after_def)
qed

text \<open>
  Claim C9, as amended. In the current client \<open>run\<close> issues no cancellation request,
  whatever the replies; when its first message has resolved, a booking is found and the
  policy is to replace it, \<open>run\<close> leaves the confirmation number of the first booking in
  \<open>existingBookingConfirmationNumber\<close>. \<open>holdSlot\<close>, outside demo mode and not yet holding,
  with a number staged, issues the cancellation of that number first and only once,
  and the hold request, when it is issued, right after it. In \<open>Client/index.ts\<close>, when
  the lookup finds a booking and the policy is to replace it, the first two requests of
  \<open>run\<close> are the lookup and the cancellation of the first booking found; and \<open>run\<close> never
  changes \<open>existingBookingConfirmationNumber\<close>: nothing is staged.
\<close>

theorem cancellation_staged_until_hold:
  "filter is_cancel (issued w (world_after (run cfg started s w))) = []
   \<and> (run_notify cfg started s w = (Resolved (), s1, w1) \<and>
        checkExistBooking w1 = (Resolved (True, first # others), w2) \<and> cancelIfExist cfg \<longrightarrow>
        existingBookingConfirmationNumber (state_after (run cfg started s w)) = first)
   \<and> (\<not> demoOnly cfg \<and> \<not> isHolded s \<and> existingBookingConfirmationNumber s \<noteq> [] \<longrightarrow>
        (issued w (world_after (holdSlot cfg booking loc s w)) =
           [cancel_request (existingBookingConfirmationNumber s)] \<or>
         take 2 (issued w (world_after (holdSlot cfg booking loc s w))) =
           [cancel_request (existingBookingConfirmationNumber s), hold_request booking]) \<and>
        filter is_cancel (issued w (world_after (holdSlot cfg booking loc s w))) =
           [cancel_request (existingBookingConfirmationNumber s)])
   \<and> (checkExistBooking_Client wc = (Resolved (True, first # others), wc1) \<and> cancelIfExist cfg \<longrightarrow>
        take 2 (issued_Client wc (world_after (run_Client cfg s wc))) =
          [lookup_request_Client, cancel_request_Client first])
   \<and> existingBookingConfirmationNumber (state_after (run_Client cfg s wc)) =
        existingBookingConfirmationNumber s"
proof -
  have a: "filter is_cancel (issued w (world_after (run cfg started s w))) = []"
    by (rule adds_filter) (rule adds_run)
  have b: "existingBookingConfirmationNumber (state_after (run cfg started s w)) = first"
    if "run_notify cfg started s w = (Resolved (), s1, w1)"
       "checkExistBooking w1 = (Resolved (True, first # others), w2)" "cancelIfExist cfg"
    using that
      requestAvaliableLocation_staged [of cfg "s1\<lparr>existingBookingConfirmationNumber := first\<rparr>" w2]
    by (simp add: run_def run_existing_def)
  show ?thesis
    using a b holdSlot_staged [of cfg s "existingBookingConfirmationNumber s" w booking loc]
      run_Client_cancels_at_startup [of wc first others wc1 cfg s]
      run_Client_nothing_staged [of cfg s wc]
    by blast
qed

text \<open>Witness of C9: a startup that finds the booking \<open>C-1\<close>, then a hold with \<open>C-1\<close> staged,
  and the startup of \<open>Client/index.ts\<close> on the same booking.\<close>

theorem cancellation_staged_until_hold_witness:
  "run_notify cfg_example ''now'' init_scheduler (world_of startup_replies_example) =
     (Resolved (), init_scheduler\<lparr>webhookStatusMessageId := 8\<rparr>,
      \<lparr>replies = [Response 200 (ExistBookingJson [''C-1'']), Response 200 (LocationsJson [loc_example])],
       sent = [new_message cfg_example ''TX DPS Scheduler Starting at now'' False]\<rparr>)
   \<and> checkExistBooking
       \<lparr>replies = [Response 200 (ExistBookingJson [''C-1'']), Response 200 (LocationsJson [loc_example])],
        sent = [new_message cfg_example ''TX DPS Scheduler Starting at now'' False]\<rparr> =
     (Resolved (True, [''C-1'']),
      \<lparr>replies = [Response 200 (LocationsJson [loc_example])],
       sent = [new_message cfg_example ''TX DPS Scheduler Starting at now'' False,
               Api ''/api/Booking'' ExistBookingPayload]\<rparr>)
   \<and> cancelIfExist cfg_example
   \<and> existingBookingConfirmationNumber
        (state_after (run cfg_example ''now'' init_scheduler (world_of startup_replies_example))) = ''C-1''
   \<and> \<not> demoOnly cfg_example
   \<and> \<not> isHolded (init_scheduler\<lparr>existingBookingConfirmationNumber := ''C-1''\<rparr>)
   \<and> existingBookingConfirmationNumber (init_scheduler\<lparr>existingBookingConfirmationNumber := ''C-1''\<rparr>) = ''C-1''
   \<and> sent (world_after (holdSlot cfg_example slot_example loc_example
        (init_scheduler\<lparr>existingBookingConfirmationNumber := ''C-1''\<rparr>)
        (world_of [Response 200 OtherJson, Response 200 (HoldJson False)]))) =
       [cancel_request ''C-1'', hold_request slot_example]
   \<and> checkExistBooking_Client (world_of_Client [Response 200 (ExistBookingJson [''C-1'']),
        Response 200 OtherJson, Response 200 (LocationsJson [loc_example])]) =
     (Resolved (True, [''C-1'']),
      \<lparr>replies_Client = [Response 200 OtherJson, Response 200 (LocationsJson [loc_example])],
       sent_Client = [lookup_request_Client]\<rparr>)
   \<and> take 2 (sent_Client (world_after (run_Client cfg_example init_scheduler
        (world_of_Client [Response 200 (ExistBookingJson [''C-1'']),
           Response 200 OtherJson, Response 200 (LocationsJson [loc_example])])))) =
       [lookup_request_Client, cancel_request_Client ''C-1'']"
  using cancellation_staged_until_hold [of "world_of startup_replies_example" cfg_example "''now''"
      init_scheduler "init_scheduler\<lparr>webhookStatusMessageId := 8\<rparr>"
      "\<lparr>replies = [Response 200 (ExistBookingJson [''C-1'']), Response 200 (LocationsJson [loc_example])],
       sent = [new_message cfg_example ''TX DPS Scheduler Starting at now'' False]\<rparr>"
      "''C-1''" "[]"
      "\<lparr>replies = [Response 200 (LocationsJson [loc_example])],
       sent = [new_message cfg_example ''TX DPS Scheduler Starting at now'' False,
               Api ''/api/Booking'' ExistBookingPayload]\<rparr>"]
    cancellation_staged_until_hold [of "world_of [Response 200 OtherJson, Response 200 (HoldJson False)]"
      cfg_example "''now''" "init_scheduler\<lparr>existingBookingConfirmationNumber := ''C-1''\<rparr>"
      _ _ _ _ _ slot_example loc_example]
    cancellation_staged_until_hold [where cfg = cfg_example and first = "''C-1''" and others = "[]"
      and s = init_scheduler
      and wc = "world_of_Client [Response 200 (ExistBookingJson [''C-1'']),
           Response 200 OtherJson, Response 200 (LocationsJson [loc_example])]"
      and ?wc1.0 = "\<lparr>replies_Client = [Response 200 OtherJson, Response 200 (LocationsJson [loc_example])],
       sent_Client = [lookup_request_Client]\<rparr>"]
  by (simp add: startup_replies_example_def run_notify_def checkExistBooking_def requestApi_def
        transport_def world_of_def cfg_example_def init_scheduler_def sendWebhook_new
        sendNewMessage_def Let_def new_message_def holdSlot_def cancel_existing_def
        cancelBooking_def world_after_def cancel_request_def hold_request_def
        checkExistBooking_Client_def transport_Client_def world_of_Client_def
        lookup_request_Client_def issued_Client_def)

text \<open>
  Counterexample to C9 as stated: \<open>run\<close> of \<open>Client/index.ts\<close>, with the policy to replace,
  issues the cancellation request at startup, between the lookup of the booking and the
  search of the locations, and stages nothing.
\<close>

theorem cancellation_at_startup_counterexample:
  "cancelIfExist cfg_example
   \<and> sent_Client (world_after (run_Client cfg_example init_scheduler
        (world_of_Client [Response 200 (ExistBookingJson [''C-1'']), Response 200 OtherJson,
           Response 200 (LocationsJson [loc_example])]))) =
       [Api_Client ''/api/Booking'' ExistBookingPayload,
        Api_Client ''/api/CancelBooking'' (CancelBookingPayload ''C-1''),
        Api_Client ''/api/AvailableLocation/'' AvaliableLocationPayload]
   \<and> existingBookingConfirmationNumber (state_after (run_Client cfg_example init_scheduler
        (world_of_Client [Response 200 (ExistBookingJson [''C-1'']), Response 200 OtherJson,
           Response 200 (LocationsJson [loc_example])]))) = []"
  by (simp add: run_Client_def checkExistBooking_Client_def cancelBooking_Client_def
        requestAvaliableLocation_Client_def transport_Client_def world_of_Client_def
        cfg_example_def init_scheduler_def world_after_def state_after_def)

section \<open>Properties of the reservation state\<close>

lemma sendWebhook_state:
  "fst (snd (sendWebhook cfg m important s w)) =
     s\<lparr>webhookStatusMessageId := webhookStatusMessageId (fst (snd (sendWebhook cfg m important s w)))\<rparr>"
proof (cases "sendNewMessage important s")
  case True
  then show ?thesis
    by (auto simp: sendWebhook_new Let_def split: verdict.splits)
next
  case False
  then show ?thesis
    by (auto simp: sendWebhook_retry Let_def split: verdict.splits)
qed

lemma sendWebhook_flags:
  "isHolded (fst (snd (sendWebhook cfg m important s w))) = isHolded s"
  "isBooked (fst (snd (sendWebhook cfg m important s w))) = isBooked s"
  "queue_isPaused (fst (snd (sendWebhook cfg m important s w))) = queue_isPaused s"
  "existingBookingConfirmationNumber (fst (snd (sendWebhook cfg m important s w))) =
     existingBookingConfirmationNumber s"
  by (subst sendWebhook_state, simp)+

lemma bookSlot_flags:
  "isHolded (state_after (bookSlot cfg booking loc s w)) = isHolded s"
  "isBooked s \<Longrightarrow> isBooked (state_after (bookSlot cfg booking loc s w))"
proof -
  let ?s' = "state_after (bookSlot cfg booking loc s w)"
  have "isHolded ?s' = isHolded s \<and> (isBooked s \<longrightarrow> isBooked ?s')"
  proof (cases "demoOnly cfg \<or> isBooked s")
    case True
    then show ?thesis by (auto simp: bookSlot_def state_after_def)
  next
    case False
    obtain out w1 where g: "getResponseId w = (out, w1)" by (cases "getResponseId w")
    show ?thesis
    proof (cases out)
      case (Resolved rid)
      obtain r w2 where b: "requestApi ''/api/NewBooking''
          (BookSlotPayload (StartDateTime booking) (Duration booking) rid (loc_Id loc)) w1 = (r, w2)"
        by (cases "requestApi ''/api/NewBooking''
          (BookSlotPayload (StartDateTime booking) (Duration booking) rid (loc_Id loc)) w1")
      have sw: "isHolded s3 = isHolded s'"
        if "sendWebhook cfg m True s' w2 = (out', s3, w3)" for m s' out' s3 w3
        using sendWebhook_flags(1) [of cfg m True s' w2] that by simp
      show ?thesis
      proof (cases r)
        case NoResponse
        then show ?thesis
          using False g Resolved b by (simp add: bookSlot_def state_after_def)
      next
        case (Response st bd)
        show ?thesis
        proof (cases "st = 200")
          case ok: True
          show ?thesis
            using False g Resolved b Response ok sw
            by (cases bd)
               (auto simp: bookSlot_def state_after_def Let_def split: prod.splits outcome.splits)
        next
          case bad: False
          then show ?thesis
            using False g Resolved b Response by (simp add: bookSlot_def state_after_def)
        qed
      qed
    next
      case (Rejected e)
      then show ?thesis using False g by (simp add: bookSlot_def state_after_def)
    next
      case (Exited x)
      then show ?thesis using False g by (simp add: bookSlot_def state_after_def)
    qed
  qed
  then show "isHolded ?s' = isHolded s" and "isBooked s \<Longrightarrow> isBooked ?s'" by simp_all
qed

lemma cancel_existing_state: "state_after (cancel_existing cfg s w) = s"
  by (auto simp: cancel_existing_def cancelBooking_def state_after_def requestApi_def Let_def
        split: prod.splits reply.splits)

lemma holdSlot_state:
  "state_after (holdSlot cfg booking loc s w) = s \<or>
   state_after (holdSlot cfg booking loc s w) = s\<lparr>queue_isPaused := False\<rparr> \<or>
   (\<exists>w2. state_after (holdSlot cfg booking loc s w) =
      state_after (bookSlot cfg booking loc (s\<lparr>isHolded := True\<rparr>) w2))"
proof (cases "demoOnly cfg \<or> isHolded s")
  case True
  then show ?thesis by (auto simp: holdSlot_def state_after_def)
next
  case False
  obtain out s1 w1 where c: "cancel_existing cfg s w = (out, s1, w1)"
    by (cases "cancel_existing cfg s w")
  then have s1: "s1 = s" using cancel_existing_state [of cfg s w] by (simp add: state_after_def)
  show ?thesis
  proof (cases out)
    case (Resolved u)
    obtain r w2 where h: "requestApi ''/api/HoldSlot'' (HoldSlotPayload (SlotId booking)) w1 = (r, w2)"
      by (cases "requestApi ''/api/HoldSlot'' (HoldSlotPayload (SlotId booking)) w1")
    show ?thesis
    proof (cases r)
      case NoResponse
      then show ?thesis using False c s1 Resolved h by (simp add: holdSlot_def state_after_def)
    next
      case (Response st bd)
      then show ?thesis
        using False c s1 Resolved h
        by (cases bd) (auto simp: holdSlot_def state_after_def split: bool.splits)
    qed
  next
    case (Rejected e)
    then show ?thesis using False c s1 by (simp add: holdSlot_def state_after_def)
  next
    case (Exited x)
    then show ?thesis using False c s1 by (simp add: holdSlot_def state_after_def)
  qed
qed

lemma holdSlot_flags:
  "latched s (state_after (holdSlot cfg booking loc s w))"
  "invariant s \<Longrightarrow> invariant (state_after (holdSlot cfg booking loc s w))"
  using holdSlot_state [of cfg booking loc s w]
    bookSlot_flags(1) [of cfg booking loc "s\<lparr>isHolded := True\<rparr>"]
    bookSlot_flags(2) [of "s\<lparr>isHolded := True\<rparr>" cfg booking loc]
  by (auto simp: latched_def invariant_def)

lemma bookSlot_latched:
  "latched s (state_after (bookSlot cfg booking loc s w))"
  "isHolded s \<Longrightarrow> invariant (state_after (bookSlot cfg booking loc s w))"
  using bookSlot_flags(1) [of cfg booking loc s w] bookSlot_flags(2) [of s cfg booking loc w]
  by (auto simp: latched_def invariant_def)

lemma getLocationDates_state:
  "state_after (getLocationDates cfg clock loc s w) = s \<or>
   state_after (getLocationDates cfg clock loc s w) = s\<lparr>queue_isPaused := True\<rparr> \<or>
   (\<exists>booking w1. state_after (getLocationDates cfg clock loc s w) =
      state_after (holdSlot cfg booking loc (s\<lparr>queue_isPaused := True\<rparr>) w1))"
proof -
  obtain r w1 where t: "requestApi ''/api/AvailableLocationDates''
      (AvaliableLocationDatesPayload (loc_Id loc)) w = (r, w1)"
    by (cases "requestApi ''/api/AvailableLocationDates''
      (AvaliableLocationDatesPayload (loc_Id loc)) w")
  show ?thesis
  proof (cases r)
    case NoResponse
    then show ?thesis using t by (simp add: getLocationDates_def state_after_def)
  next
    case (Response st bd)
    show ?thesis
    proof (cases "\<exists>ds. bd = DatesJson ds")
      case False
      then show ?thesis
        using t Response by (cases bd) (simp_all add: getLocationDates_def state_after_def)
    next
      case True
      then obtain ds where ds: "bd = DatesJson ds" by blast
      show ?thesis
      proof (cases "avaliableDates cfg clock 0 ds")
        case Nil
        then show ?thesis
          using t Response ds by (simp add: getLocationDates_def state_after_def)
      next
        case (Cons d rest)
        show ?thesis
        proof (cases "AvailableTimeSlots d")
          case Nil
          then show ?thesis
            using t Response ds Cons by (simp add: getLocationDates_def state_after_def)
        next
          case (Cons booking others)
          obtain out s2 w2 where h:
            "holdSlot cfg booking loc (s\<lparr>queue_isPaused := True\<rparr>) w1 = (out, s2, w2)"
            by (cases "holdSlot cfg booking loc (s\<lparr>queue_isPaused := True\<rparr>) w1")
          then have "state_after (holdSlot cfg booking loc (s\<lparr>queue_isPaused := True\<rparr>) w1) = s2"
            by (simp add: state_after_def)
          then have e: "\<exists>booking w1. s2 =
              state_after (holdSlot cfg booking loc (s\<lparr>queue_isPaused := True\<rparr>) w1)"
            by metis
          show ?thesis
            using t Response ds \<open>avaliableDates cfg clock 0 ds = d # rest\<close> Cons h e
            by (cases out) (auto simp: getLocationDates_def state_after_def Let_def)
        qed
      qed
    qed
  qed
qed

lemma getLocationDates_flags:
  "latched s (state_after (getLocationDates cfg clock loc s w))"
  "invariant s \<Longrightarrow> invariant (state_after (getLocationDates cfg clock loc s w))"
proof -
  let ?p = "s\<lparr>queue_isPaused := True\<rparr>"
  have l: "latched s (state_after (holdSlot cfg booking loc ?p w1))" for booking w1
    using holdSlot_flags(1) [of ?p cfg booking loc w1] by (simp add: latched_def)
  have i: "invariant s \<Longrightarrow> invariant (state_after (holdSlot cfg booking loc ?p w1))" for booking w1
    using holdSlot_flags(2) [of ?p cfg booking loc w1] by (simp add: invariant_def)
  show "latched s (state_after (getLocationDates cfg clock loc s w))"
    using getLocationDates_state [of cfg clock loc s w] l by (auto simp: latched_def)
  show "invariant s \<Longrightarrow> invariant (state_after (getLocationDates cfg clock loc s w))"
    using getLocationDates_state [of cfg clock loc s w] i by (auto simp: invariant_def)
qed

lemma requestAvaliableLocation_flags:
  "isHolded (state_after (requestAvaliableLocation cfg s w)) = isHolded s"
  "isBooked (state_after (requestAvaliableLocation cfg s w)) = isBooked s"
  by (auto simp: requestAvaliableLocation_def state_after_def Let_def
        split: prod.splits reply.splits body.splits)

lemma run_existing_flags:
  "isHolded (state_after (run_existing cfg s w)) = isHolded s"
  "isBooked (state_after (run_existing cfg s w)) = isBooked s"
  by (auto simp: run_existing_def state_after_def
        requestAvaliableLocation_flags [unfolded state_after_def]
        split: prod.splits outcome.splits list.splits)

lemma run_notify_flags:
  "isHolded (state_after (run_notify cfg started s w)) = isHolded s"
  "isBooked (state_after (run_notify cfg started s w)) = isBooked s"
  using sendWebhook_flags(1,2) [of cfg "''TX DPS Scheduler Starting at '' @ started" False s w]
  by (auto simp: run_notify_def state_after_def split: prod.splits outcome.splits)

lemma run_flags:
  "isHolded (state_after (run cfg started s w)) = isHolded s"
  "isBooked (state_after (run cfg started s w)) = isBooked s"
proof -
  obtain out s1 w1 where n: "run_notify cfg started s w = (out, s1, w1)"
    by (cases "run_notify cfg started s w")
  then have f: "isHolded s1 = isHolded s" "isBooked s1 = isBooked s"
    using run_notify_flags [of cfg started s w] by (simp_all add: state_after_def)
  show "isHolded (state_after (run cfg started s w)) = isHolded s"
    using n f by (cases out) (simp_all add: run_def state_after_def
        run_existing_flags [unfolded state_after_def])
  show "isBooked (state_after (run cfg started s w)) = isBooked s"
    using n f by (cases out) (simp_all add: run_def state_after_def
        run_existing_flags [unfolded state_after_def])
qed

lemma step_latched: "step cfg s s' \<Longrightarrow> latched s s'"
proof (induction rule: step.induct)
  case (startup s started w)
  then show ?case by (simp add: latched_def run_flags)
next
  case (probe s clock loc w)
  then show ?case by (rule getLocationDates_flags(1))
next
  case (hold s booking loc w)
  then show ?case by (rule holdSlot_flags(1))
next
  case (book s booking loc w)
  then show ?case by (simp add: bookSlot_latched(1))
next
  case (report s m important w)
  then show ?case
    using sendWebhook_flags(1,2) [of cfg m important s w] by (simp add: latched_def state_after_def)
qed

lemma step_invariant: "step cfg s s' \<Longrightarrow> invariant s \<Longrightarrow> invariant s'"
proof (induction rule: step.induct)
  case (startup s started w)
  then show ?case by (simp add: invariant_def run_flags)
next
  case (probe s clock loc w)
  then show ?case by (simp add: getLocationDates_flags(2))
next
  case (hold s booking loc w)
  then show ?case by (simp add: holdSlot_flags(2))
next
  case (book s booking loc w)
  then show ?case by (simp add: bookSlot_latched(2))
next
  case (report s m important w)
  then show ?case
    using sendWebhook_flags(1,2) [of cfg m important s w]
    by (simp add: invariant_def state_after_def)
qed

lemma steps_latched: "(step cfg)\<^sup>*\<^sup>* s s' \<Longrightarrow> latched s s'"
  by (induction rule: rtranclp_induct) (auto simp: latched_def dest: step_latched)

lemma reachable_invariant: "reachable cfg s \<Longrightarrow> invariant s"
  by (induction rule: reachable.induct)
     (auto simp: invariant_def init_scheduler_def dest: step_invariant)

text \<open>
  Claim C2. In every state \<open>s\<close> that a run reaches from the initial state by startup,
  probes, holds, books and reports, \<open>isBooked\<close> implies \<open>isHolded\<close>; and in every state \<open>s'\<close>
  that further operations lead to from \<open>s\<close>, a flag that was true in \<open>s\<close> is still true.
\<close>

theorem booked_implies_holding_latches:
  "reachable cfg s \<Longrightarrow> (step cfg)\<^sup>*\<^sup>* s s' \<Longrightarrow>
     (isBooked s \<longrightarrow> isHolded s) \<and> (isHolded s \<longrightarrow> isHolded s') \<and> (isBooked s \<longrightarrow> isBooked s')"
  using reachable_invariant [of cfg s] steps_latched [of cfg s s']
  by (simp add: invariant_def latched_def)

lemma holdSlot_booked_example:
  "state_after (holdSlot cfg_example slot_example loc_example init_scheduler
     (world_of booking_replies_example)) = booked_example"
  by (simp add: booking_replies_example_def booked_example_def holdSlot_def cancel_existing_def
        bookSlot_def getResponseId_def requestApi_def transport_def world_of_def cfg_example_def
        init_scheduler_def sendWebhook_new sendNewMessage_def Let_def state_after_def)

text \<open>Witness of C2: the state after a hold and a booking that succeed, then a report.\<close>

theorem booked_implies_holding_latches_witness:
  "reachable cfg_example booked_example
   \<and> (step cfg_example)\<^sup>*\<^sup>* booked_example
        (state_after (sendWebhook cfg_example ''status'' False booked_example
           (world_of [Response 200 (WebhookOk 13)])))
   \<and> isBooked booked_example \<and> isHolded booked_example
   \<and> isHolded (state_after (sendWebhook cfg_example ''status'' False booked_example
           (world_of [Response 200 (WebhookOk 13)])))
   \<and> isBooked (state_after (sendWebhook cfg_example ''status'' False booked_example
           (world_of [Response 200 (WebhookOk 13)])))"
proof -
  have r: "reachable cfg_example booked_example"
    using reachable.after [OF reachable.initial step.hold
        [of cfg_example init_scheduler slot_example loc_example "world_of booking_replies_example"]]
    by (simp add: holdSlot_booked_example)
  have s: "(step cfg_example)\<^sup>*\<^sup>* booked_example
        (state_after (sendWebhook cfg_example ''status'' False booked_example
           (world_of [Response 200 (WebhookOk 13)])))"
    by (rule r_into_rtranclp) (rule step.report)
  show ?thesis
    using r s booked_implies_holding_latches [OF r s]
    by (simp add: booked_example_def)
qed

section \<open>Exit codes\<close>

lemma cancelBooking_exit:
  "fst (cancelBooking cfg c s w) = Exited x \<Longrightarrow>
     x = (if demoOnly cfg then DemoRefusal else CancelFailed)"
  by (auto simp: cancelBooking_def Let_def split: if_splits prod.splits reply.splits)

lemma cancel_existing_exit:
  "cancel_existing cfg s w = (Exited x, s1, w1) \<Longrightarrow>
     x = (if demoOnly cfg then DemoRefusal else CancelFailed)"
  using cancelBooking_exit [of cfg "existingBookingConfirmationNumber s" s w x]
  by (auto simp: cancel_existing_def split: if_splits)

lemma sendWebhook_no_exit: "fst (sendWebhook cfg m important s w) \<noteq> Exited x"
  by (cases "sendNewMessage important s")
     (auto simp: sendWebhook_new sendWebhook_retry Let_def split: verdict.splits)

lemma getResponseId_no_exit: "fst (getResponseId w) \<noteq> Exited x"
  by (auto simp: getResponseId_def Let_def split: prod.splits reply.splits body.splits list.splits)

lemma bookSlot_exit:
  assumes "fst (bookSlot cfg booking loc s w) = Exited x"
  shows "x = (if demoOnly cfg then DemoRefusal else BookedOk)"
proof (cases "demoOnly cfg \<or> isBooked s")
  case True
  then show ?thesis using assms by (auto simp: bookSlot_def split: if_splits)
next
  case False
  obtain out w1 where g: "getResponseId w = (out, w1)" by (cases "getResponseId w")
  show ?thesis
  proof (cases out)
    case (Resolved rid)
    obtain r w2 where b: "requestApi ''/api/NewBooking''
        (BookSlotPayload (StartDateTime booking) (Duration booking) rid (loc_Id loc)) w1 = (r, w2)"
      by (cases "requestApi ''/api/NewBooking''
        (BookSlotPayload (StartDateTime booking) (Duration booking) rid (loc_Id loc)) w1")
    have sw: "sendWebhook cfg m True s' w2 \<noteq> (Exited x', s3, w3)" for m s' s3 w3 x'
      using sendWebhook_no_exit [of cfg m True s' w2 x'] by auto
    show ?thesis
    proof (cases r)
      case NoResponse
      then show ?thesis using assms False g Resolved b by (simp add: bookSlot_def)
    next
      case (Response st bd)
      show ?thesis
      proof (cases "st = 200")
        case ok: True
        show ?thesis
          using assms False g Resolved b Response ok
          by (cases bd)
             (auto simp: bookSlot_def Let_def sw split: prod.splits outcome.splits if_splits)
      next
        case bad: False
        then show ?thesis using assms False g Resolved b Response by (simp add: bookSlot_def)
      qed
    qed
  next
    case (Rejected e)
    then show ?thesis using assms False g by (simp add: bookSlot_def)
  next
    case (Exited x')
    then show ?thesis using g getResponseId_no_exit [of w x'] by simp
  qed
qed

lemma holdSlot_exit:
  assumes "fst (holdSlot cfg booking loc s w) = Exited x"
  shows "if demoOnly cfg then x = DemoRefusal else x = CancelFailed \<or> x = BookedOk"
proof (cases "demoOnly cfg \<or> isHolded s")
  case True
  then show ?thesis using assms by (auto simp: holdSlot_def split: if_splits)
next
  case False
  obtain out s1 w1 where c: "cancel_existing cfg s w = (out, s1, w1)"
    by (cases "cancel_existing cfg s w")
  show ?thesis
  proof (cases out)
    case (Resolved u)
    obtain r w2 where h: "requestApi ''/api/HoldSlot'' (HoldSlotPayload (SlotId booking)) w1 = (r, w2)"
      by (cases "requestApi ''/api/HoldSlot'' (HoldSlotPayload (SlotId booking)) w1")
    have bk: "fst (bookSlot cfg booking loc s' w2) = Exited x \<Longrightarrow> x = BookedOk" for s'
      using bookSlot_exit [of cfg booking loc s' w2 x] False by simp
    show ?thesis
    proof (cases r)
      case NoResponse
      then show ?thesis using assms False c Resolved h by (simp add: holdSlot_def)
    next
      case (Response st bd)
      then show ?thesis
        using assms False c Resolved h bk
        by (cases bd) (auto simp: holdSlot_def split: bool.splits)
    qed
  next
    case (Rejected e)
    then show ?thesis using assms False c by (simp add: holdSlot_def)
  next
    case (Exited x')
    then show ?thesis
      using assms False c cancel_existing_exit [of cfg s w x' s1 w1] by (simp add: holdSlot_def)
  qed
qed

lemma requestAvaliableLocation_no_exit: "fst (requestAvaliableLocation cfg s w) \<noteq> Exited x"
  by (auto simp: requestAvaliableLocation_def Let_def split: prod.splits reply.splits body.splits)

lemma checkExistBooking_no_exit: "fst (checkExistBooking w) \<noteq> Exited x"
  by (auto simp: checkExistBooking_def Let_def split: prod.splits reply.splits body.splits)

lemma run_existing_exit:
  assumes "fst (run_existing cfg s w) = Exited x"
  shows "x = KeepExisting"
proof -
  obtain out w1 where c: "checkExistBooking w = (out, w1)" by (cases "checkExistBooking w")
  have n: "fst (requestAvaliableLocation cfg s' w1) \<noteq> Exited x" for s'
    by (rule requestAvaliableLocation_no_exit)
  show ?thesis
  proof (cases out)
    case (Resolved p)
    then show ?thesis
      using assms c n
      by (cases p) (auto simp: run_existing_def split: if_splits list.splits)
  next
    case (Rejected e)
    then show ?thesis using assms c by (simp add: run_existing_def)
  next
    case (Exited x')
    then show ?thesis using c checkExistBooking_no_exit [of w x'] by simp
  qed
qed

lemma run_exit:
  assumes "fst (run cfg started s w) = Exited x"
  shows "x = WebhookSetupFailed \<or> x = KeepExisting"
proof -
  obtain out s1 w1 where n: "run_notify cfg started s w = (out, s1, w1)"
    by (cases "run_notify cfg started s w")
  show ?thesis
  proof (cases out)
    case (Resolved u)
    then show ?thesis
      using assms n run_existing_exit [of cfg s1 w1 x] by (simp add: run_def)
  next
    case (Rejected e)
    then show ?thesis using assms n by (simp add: run_def)
  next
    case (Exited x')
    then have "x' = WebhookSetupFailed"
      using n sendWebhook_no_exit [of cfg "''TX DPS Scheduler Starting at '' @ started" False s w]
      by (auto simp: run_notify_def split: if_splits prod.splits outcome.splits)
    then show ?thesis using assms n Exited by (simp add: run_def)
  qed
qed

text \<open>
  Claim C1, as amended. The process exits with 0 after a booking, with 0 when an
  existing booking is kept, with 0 when the cancellation fails, with 2 when it refuses
  to act in demo mode and with 5 when the first notification fails: the last two codes
  differ from each other and from the other three, which are one code. \<open>run\<close> exits only
  for the failed notification or the kept booking, \<open>cancelBooking\<close> only for the demo
  refusal or the failed cancellation, \<open>bookSlot\<close> only for the demo refusal or the booking,
  \<open>holdSlot\<close> only for one of these three.
\<close>

theorem exit_codes_of_outcomes:
  "exit_code BookedOk = 0 \<and> exit_code KeepExisting = 0 \<and> exit_code CancelFailed = 0
   \<and> exit_code DemoRefusal = 2 \<and> exit_code WebhookSetupFailed = 5
   \<and> (fst (run cfg started s w) = Exited x \<longrightarrow> x = WebhookSetupFailed \<or> x = KeepExisting)
   \<and> (fst (cancelBooking cfg c s w) = Exited x \<longrightarrow>
        x = (if demoOnly cfg then DemoRefusal else CancelFailed))
   \<and> (fst (bookSlot cfg booking loc s w) = Exited x \<longrightarrow>
        x = (if demoOnly cfg then DemoRefusal else BookedOk))
   \<and> (fst (holdSlot cfg booking loc s w) = Exited x \<longrightarrow>
        (if demoOnly cfg then x = DemoRefusal else x = CancelFailed \<or> x = BookedOk))"
  using run_exit [of cfg started s w x] cancelBooking_exit [of cfg c s w x]
    bookSlot_exit [of cfg booking loc s w x] holdSlot_exit [of cfg booking loc s w x]
  by simp

text \<open>Witness of C1: one run for each of the five reasons to exit.\<close>

theorem exit_codes_of_outcomes_witness:
  "fst (run cfg_keep_example ''now'' init_scheduler
      (world_of [Response 200 (ExistBookingJson [''C-1''])])) = Exited KeepExisting
   \<and> fst (run cfg_example ''now'' init_scheduler (world_of [])) = Exited WebhookSetupFailed
   \<and> fst (cancelBooking cfg_example ''C-1'' init_scheduler (world_of [Response 500 OtherJson])) =
       Exited CancelFailed
   \<and> fst (bookSlot cfg_keep_example slot_example loc_example (init_scheduler\<lparr>isHolded := True\<rparr>)
       (world_of [Response 200 (EligibilityJson [''R-5'']), Response 200 (BookJson ''C-77'')])) =
       Exited BookedOk
   \<and> fst (holdSlot (cfg_example\<lparr>demoOnly := True\<rparr>) slot_example loc_example init_scheduler
       (world_of [])) = Exited DemoRefusal"
  using exit_codes_of_outcomes [where cfg = cfg_keep_example and started = "''now''"
      and s = init_scheduler and w = "world_of [Response 200 (ExistBookingJson [''C-1''])]"
      and x = KeepExisting]
    exit_codes_of_outcomes [where cfg = cfg_example and started = "''now''"
      and s = init_scheduler and w = "world_of []" and x = WebhookSetupFailed]
    exit_codes_of_outcomes [where cfg = cfg_example and s = init_scheduler
      and w = "world_of [Response 500 OtherJson]" and c = "''C-1''" and x = CancelFailed]
    exit_codes_of_outcomes [where cfg = cfg_keep_example and s = "init_scheduler\<lparr>isHolded := True\<rparr>"
      and w = "world_of [Response 200 (EligibilityJson [''R-5'']), Response 200 (BookJson ''C-77'')]"
      and booking = slot_example and loc = loc_example and x = BookedOk]
    exit_codes_of_outcomes [where cfg = "cfg_example\<lparr>demoOnly := True\<rparr>" and s = init_scheduler
      and w = "world_of []" and booking = slot_example and loc = loc_example and x = DemoRefusal]
  by (simp add: cfg_keep_example_def cfg_example_def init_scheduler_def world_of_def run_def
        run_notify_def run_existing_def checkExistBooking_def requestApi_def transport_def
        cancelBooking_def bookSlot_def getResponseId_def holdSlot_def
        sendWebhook_new sendNewMessage_def Let_def)

text \<open>
  Counterexample to C1 as stated: a booking that succeeds, an existing booking that is
  kept and a cancellation that fails are three different outcomes, and the process
  exits with the status 0 in all three.
\<close>

theorem shared_exit_code_counterexample:
  "fst (bookSlot cfg_keep_example slot_example loc_example (init_scheduler\<lparr>isHolded := True\<rparr>)
       (world_of [Response 200 (EligibilityJson [''R-5'']), Response 200 (BookJson ''C-77'')])) =
       Exited BookedOk
   \<and> fst (run cfg_keep_example ''now'' init_scheduler
      (world_of [Response 200 (ExistBookingJson [''C-1''])])) = Exited KeepExisting
   \<and> fst (cancelBooking cfg_example ''C-1'' init_scheduler (world_of [Response 500 OtherJson])) =
       Exited CancelFailed
   \<and> exit_status (fst (bookSlot cfg_keep_example slot_example loc_example
       (init_scheduler\<lparr>isHolded := True\<rparr>)
       (world_of [Response 200 (EligibilityJson [''R-5'']), Response 200 (BookJson ''C-77'')]))) =
       Some 0
   \<and> exit_status (fst (run cfg_keep_example ''now'' init_scheduler
      (world_of [Response 200 (ExistBookingJson [''C-1''])]))) = Some 0
   \<and> exit_status (fst (cancelBooking cfg_example ''C-1'' init_scheduler
      (world_of [Response 500 OtherJson]))) = Some 0"
  by (simp add: cfg_keep_example_def cfg_example_def init_scheduler_def world_of_def run_def
        run_notify_def run_existing_def checkExistBooking_def requestApi_def transport_def
        cancelBooking_def bookSlot_def getResponseId_def Let_def)

end
